theory Spec2Isabelle
  imports Main "HOL-Library.Word" "HOL-Library.Sublist"
begin

section \<open>The outgoing data queue \<open>ws_outgoing_data_t\<close>\<close>

text \<open>
  \<open>buffers_container_t\<close> is a \<open>std::vector\<close> of buffer items; the model is a list over
  an arbitrary item type \<open>'b\<close>. The queue class has two members, the flag
  \<open>m_close_when_done\<close> (initially false) and the vector \<open>m_awaiting_buffers\<close>.
\<close>

type_synonym 'b buffers_container_t = "'b list"

record 'b ws_outgoing_data_t =
  m_close_when_done :: bool
  m_awaiting_buffers :: "'b buffers_container_t"

text \<open>
  A failed \<open>assert\<close> aborts the program; it is the only way a modelled operation can
  fail, and it is a value of the result type.
\<close>

datatype failure = Assertion_failed

text \<open>
  The loop \<open>for( auto & buf : bufs ) v.emplace_back( std::move( buf ) )\<close>, used by
  both queue operations: every element of \<open>bufs\<close> is pushed at the back of \<open>v\<close>, in
  order.
\<close>

fun emplace_back_all :: "'b list \<Rightarrow> 'b list \<Rightarrow> 'b list" where
  "emplace_back_all v [] = v"
| "emplace_back_all v (buf # bufs) = emplace_back_all (v @ [buf]) bufs"

text \<open>
  \<open>append\<close>: the assertion \<open>!m_close_when_done\<close> first, then adoption of the incoming
  vector when the queue is empty, and element-wise \<open>emplace_back\<close> otherwise
  (\<open>reserve\<close> changes capacity only).
\<close>

definition append_q ::
  "'b buffers_container_t \<Rightarrow> 'b ws_outgoing_data_t \<Rightarrow> failure + 'b ws_outgoing_data_t" where
  "append_q bufs q =
     (if m_close_when_done q then Inl Assertion_failed
      else if m_awaiting_buffers q = [] then Inr (q\<lparr>m_awaiting_buffers := bufs\<rparr>)
      else Inr (q\<lparr>m_awaiting_buffers := emplace_back_all (m_awaiting_buffers q) bufs\<rparr>))"

text \<open>
  \<open>pop_ready_buffers( max_buf_count, bufs )\<close> returns the new contents of the caller's
  container \<open>bufs\<close> and the new queue. In the first branch \<open>bufs\<close> is move-assigned from
  the queue's vector, which is left empty (what a moved-from \<open>std::vector\<close> with the
  default allocator is). In the second branch the first \<open>max_buf_count\<close> elements are
  pushed at the back of \<open>bufs\<close> and then erased from the queue.
\<close>

definition pop_ready_buffers ::
  "nat \<Rightarrow> 'b buffers_container_t \<Rightarrow> 'b ws_outgoing_data_t
     \<Rightarrow> 'b buffers_container_t \<times> 'b ws_outgoing_data_t" where
  "pop_ready_buffers max_buf_count bufs q =
     (if max_buf_count \<ge> length (m_awaiting_buffers q)
      then (m_awaiting_buffers q, q\<lparr>m_awaiting_buffers := []\<rparr>)
      else (emplace_back_all bufs (take max_buf_count (m_awaiting_buffers q)),
            q\<lparr>m_awaiting_buffers := drop max_buf_count (m_awaiting_buffers q)\<rparr>))"

definition close_when_done :: "'b ws_outgoing_data_t \<Rightarrow> bool" where
  "close_when_done q = m_close_when_done q"

definition set_close_when_done :: "'b ws_outgoing_data_t \<Rightarrow> 'b ws_outgoing_data_t" where
  "set_close_when_done q = q\<lparr>m_close_when_done := True\<rparr>"

text \<open>
  Drivers for sequences of queue calls. \<open>append_all\<close> performs the \<open>append\<close> calls in
  order and stops at a failed assertion. \<open>pop_all\<close> performs one
  \<open>pop_ready_buffers\<close> call per count, each into a fresh (empty) container, and
  collects the containers in call order.
\<close>

fun append_all ::
  "'b buffers_container_t list \<Rightarrow> 'b ws_outgoing_data_t \<Rightarrow> failure + 'b ws_outgoing_data_t" where
  "append_all [] q = Inr q"
| "append_all (bufs # rest) q =
     (case append_q bufs q of Inl e \<Rightarrow> Inl e | Inr q' \<Rightarrow> append_all rest q')"

fun pop_all ::
  "nat list \<Rightarrow> 'b ws_outgoing_data_t \<Rightarrow> 'b buffers_container_t list \<times> 'b ws_outgoing_data_t" where
  "pop_all [] q = ([], q)"
| "pop_all (n # ns) q =
     (case pop_ready_buffers n [] q of
        (bufs, q') \<Rightarrow> (case pop_all ns q' of (rest, q'') \<Rightarrow> (bufs # rest, q'')))"

section \<open>The raw output context\<close>

text \<open>
  Modelled from the spec: the class \<open>raw_resp_output_ctx_t\<close> (header
  \<open>restinio/impl/raw_resp_output_ctx.hpp\<close>) is not among the sources. The spec gives
  it a transmitting flag and a staging area holding the buffers of the write in
  flight; \<open>obtain_bufs\<close> pulls a bunch from the queue through \<open>pop_ready_buffers\<close>
  into the staging area and reports whether any buffers were obtained;
  \<open>create_bufs\<close> hands the staged buffers to the write; \<open>done\<close> releases them and
  clears the flag. The size of a bunch is not given by the spec and is the
  parameter \<open>max_iov_len\<close> of the model. The flag is true iff a write is outstanding,
  so it is raised by \<open>create_bufs\<close>, the last call on the context before the write
  is issued. \<open>obtain_bufs\<close> has the precondition "not transmitting"; when it does
  not hold the model obtains nothing.
\<close>

record 'b raw_resp_output_ctx_t =
  m_transmitting :: bool
  m_bufs :: "'b buffers_container_t"

text \<open>
  Modelled from the spec: \<open>transmitting()\<close>, missing with the class, is true iff a
  write is currently outstanding on the socket.
\<close>

definition transmitting :: "'b raw_resp_output_ctx_t \<Rightarrow> bool" where
  "transmitting ctx = m_transmitting ctx"

text \<open>
  Modelled from the spec: \<open>obtain_bufs(queue)\<close>, missing with the class, pulls a
  bunch of buffers from the queue via \<open>pop_ready_buffers\<close> into the staging area and
  returns whether any buffers were obtained.
\<close>

definition obtain_bufs ::
  "nat \<Rightarrow> 'b raw_resp_output_ctx_t \<Rightarrow> 'b ws_outgoing_data_t
     \<Rightarrow> bool \<times> 'b raw_resp_output_ctx_t \<times> 'b ws_outgoing_data_t" where
  "obtain_bufs max_iov_len ctx q =
     (if m_transmitting ctx then (False, ctx, q)
      else (case pop_ready_buffers max_iov_len (m_bufs ctx) q of
              (bufs, q') \<Rightarrow> (bufs \<noteq> [], ctx\<lparr>m_bufs := bufs\<rparr>, q')))"

text \<open>
  Modelled from the spec: \<open>create_bufs()\<close>, missing with the class, returns the
  staged buffers for a single vectored write (one descriptor per buffer); it is
  called only after a successful \<open>obtain_bufs\<close>, and the write it serves is then
  outstanding.
\<close>

definition create_bufs ::
  "'b raw_resp_output_ctx_t \<Rightarrow> 'b buffers_container_t \<times> 'b raw_resp_output_ctx_t" where
  "create_bufs ctx = (m_bufs ctx, ctx\<lparr>m_transmitting := True\<rparr>)"

text \<open>
  Modelled from the spec: \<open>done()\<close>, missing with the class, marks the write in
  flight as complete, releases the staged buffers and clears the transmitting flag.
\<close>

definition done_ctx :: "'b raw_resp_output_ctx_t \<Rightarrow> 'b raw_resp_output_ctx_t" where
  "done_ctx ctx = ctx\<lparr>m_bufs := [], m_transmitting := False\<rparr>"

section \<open>The connection \<open>ws_connection_t\<close>\<close>

text \<open>
  The socket, the logger, the close handler and the asynchronous operations are
  collaborators outside the sources. Of the socket the model keeps what
  \<open>is_open()\<close> answers and the remote endpoint the constructor prints. Every call
  the connection makes on a collaborator is recorded, in program order, in the
  field \<open>effects\<close>: a logger call with its level, format string and format
  arguments, an invocation of the close handler with its reason, an asynchronous
  write with the buffers handed to it, an asynchronous read, and the socket's
  \<open>shutdown\<close> and \<open>close\<close>. The socket operations and the asynchronous
  operations are taken to return normally. The assertion \<open>assert( m_socket )\<close> of
  \<open>write_data_impl\<close> is about the socket object itself, a by-value member for which
  the spec's socket abstraction has no truth value; it has no branch in the model.
\<close>

datatype log_level = Trace | Warn | Error

datatype fmt_arg = Arg_u64 "64 word" | Arg_size nat | Arg_str string

datatype 'b effect =
    Log log_level string "fmt_arg list"
  | Close_handler_call string
  | Async_write "'b buffers_container_t"
  | Async_read_some
  | Socket_shutdown_both
  | Socket_close

record stream_socket_t =
  is_open :: bool
  remote_endpoint :: string

text \<open>
  A logger receives a message builder, a callable that formats the message, and
  evaluates it only at the levels it has switched on; the three fields say which.
\<close>

record logger_t =
  trace_evaluated :: bool
  warn_evaluated :: bool
  error_evaluated :: bool

fun evaluates :: "logger_t \<Rightarrow> log_level \<Rightarrow> bool" where
  "evaluates lg Trace = trace_evaluated lg"
| "evaluates lg Warn = warn_evaluated lg"
| "evaluates lg Error = error_evaluated lg"

text \<open>
  The close handler is a callable supplied by the user. The model keeps what an
  invocation of it does: it returns, or it throws a \<open>std::exception\<close> with the given
  \<open>what()\<close>. A handler that calls back into the connection while it runs is not
  modelled.
\<close>

datatype close_handler_t = Handler_returns | Handler_throws string

text \<open>
  The members the modelled operations read or write. \<open>m_close_handler\<close> can be empty
  (it is tested with \<open>if( m_close_handler )\<close> and reset to \<open>close_handler_t{}\<close>):
  \<open>None\<close> is the empty handler. The strand, the settings, the message handler and
  the input header buffer are not used by any operation below.
\<close>

record 'b ws_connection_t =
  connection_id :: "64 word"
  m_socket :: stream_socket_t
  m_close_handler :: "close_handler_t option"
  m_resp_out_ctx :: "'b raw_resp_output_ctx_t"
  m_awaiting_buffers_ws :: "'b ws_outgoing_data_t"
  m_logger :: logger_t
  effects :: "'b effect list"

definition emit :: "'b effect \<Rightarrow> 'b ws_connection_t \<Rightarrow> 'b ws_connection_t" where
  "emit e s = s\<lparr>effects := effects s @ [e]\<rparr>"

subsection \<open>Exceptions\<close>

text \<open>
  An operation returns normally with the new state, or leaves by a
  \<open>std::exception\<close> with its \<open>what()\<close> and the state as it is at the throw, or
  aborts on a failed assertion. \<open>bind_outcome\<close> is sequencing of statements,
  \<open>catch_outcome\<close> a \<open>try\<close> block with a \<open>catch( const std::exception & )\<close> clause,
  which a failed assertion passes by.
\<close>

datatype 's outcome = Normal 's | Thrown string 's | Assert_failure

definition bind_outcome :: "'s outcome \<Rightarrow> ('s \<Rightarrow> 's outcome) \<Rightarrow> 's outcome" where
  "bind_outcome m f =
     (case m of Normal s \<Rightarrow> f s | Thrown what s \<Rightarrow> Thrown what s | Assert_failure \<Rightarrow> Assert_failure)"

definition catch_outcome :: "'s outcome \<Rightarrow> (string \<Rightarrow> 's \<Rightarrow> 's outcome) \<Rightarrow> 's outcome" where
  "catch_outcome m clause =
     (case m of Normal s \<Rightarrow> Normal s | Thrown what s \<Rightarrow> clause what s
      | Assert_failure \<Rightarrow> Assert_failure)"

fun final_state :: "'s outcome \<Rightarrow> 's option" where
  "final_state (Normal s) = Some s"
| "final_state (Thrown what s) = Some s"
| "final_state Assert_failure = None"

subsection \<open>Logging\<close>

text \<open>
  Every message builder in the sources is \<open>fmt::format( format_string, args... )\<close>.
  The formatting library is outside the sources; what the model takes from it is
  that a format string with more \<open>{}\<close> placeholders than arguments makes
  \<open>fmt::format\<close> throw its format error (a \<open>std::exception\<close>), and that formatting
  succeeds otherwise. \<open>placeholders\<close> counts the occurrences of \<open>{}\<close>;
  \<open>format_error_what\<close> is the library's text for the error, of which nothing
  depends.
\<close>

fun placeholders :: "string \<Rightarrow> nat" where
  "placeholders (a # b # cs) =
     (if a = CHR ''{'' \<and> b = CHR ''}'' then Suc (placeholders cs) else placeholders (b # cs))"
| "placeholders cs = 0"

definition format_error_what :: string where
  "format_error_what = ''argument index out of range''"

text \<open>
  A call \<open>m_logger.level( builder )\<close>: the call is recorded; if the logger evaluates
  the builder and the format string has more placeholders than arguments, the call
  leaves by the format error.
\<close>

definition log_call ::
  "log_level \<Rightarrow> string \<Rightarrow> fmt_arg list \<Rightarrow> 'b ws_connection_t \<Rightarrow> 'b ws_connection_t outcome" where
  "log_call level fmt args s =
     (let s1 = emit (Log level fmt args) s
      in if evaluates (m_logger s) level \<and> length args < placeholders fmt
         then Thrown format_error_what s1
         else Normal s1)"

subsection \<open>Operations\<close>

text \<open>
  The three classes of \<open>error_code\<close> that \<open>after_write\<close> tells apart: no error
  (\<open>!ec\<close>), \<open>asio::error::operation_aborted\<close>, and any other error, which carries
  what \<open>ec.message()\<close> returns.
\<close>

datatype error_code = No_error | Operation_aborted | Other_error string

text \<open>
  The constructor. Its initialiser list sets the socket, the strand, the settings,
  the input buffer, the message handler and the logger (taken from the settings);
  \<open>m_close_handler\<close> is not in the list, so it is default-constructed (empty) and the
  argument \<open>close_handler\<close> is dropped. The context and the queue are
  default-constructed; the body logs.
\<close>

definition ws_connection_ctor ::
  "64 word \<Rightarrow> stream_socket_t \<Rightarrow> logger_t \<Rightarrow> close_handler_t \<Rightarrow> 'b ws_connection_t outcome" where
  "ws_connection_ctor conn_id socket logger close_handler =
     log_call Trace ''[ws_connection:{}] start connection with {}''
       [Arg_u64 conn_id, Arg_str (remote_endpoint socket)]
       \<lparr>connection_id = conn_id,
        m_socket = socket,
        m_close_handler = None,
        m_resp_out_ctx = \<lparr>m_transmitting = False, m_bufs = []\<rparr>,
        m_awaiting_buffers_ws = \<lparr>m_close_when_done = False, m_awaiting_buffers = []\<rparr>,
        m_logger = logger,
        effects = []\<rparr>"

text \<open>
  \<open>call_close_handler\<close>: the handler is invoked first; the assignment of the empty
  handler is the next statement and is reached only if the invocation returns.
\<close>

definition call_close_handler ::
  "string \<Rightarrow> 'b ws_connection_t \<Rightarrow> 'b ws_connection_t outcome" where
  "call_close_handler reason s =
     (case m_close_handler s of
        Some h \<Rightarrow>
          (let s1 = emit (Close_handler_call reason) s
           in case h of
                Handler_returns \<Rightarrow> Normal (s1\<lparr>m_close_handler := None\<rparr>)
              | Handler_throws what \<Rightarrow> Thrown what s1)
      | None \<Rightarrow> Normal s)"

text \<open>The message builder is passed as its format string and arguments.\<close>

definition trigger_error_and_close ::
  "string \<Rightarrow> string \<times> fmt_arg list \<Rightarrow> 'b ws_connection_t \<Rightarrow> 'b ws_connection_t outcome" where
  "trigger_error_and_close reason msg_builder s =
     bind_outcome (log_call Error (fst msg_builder) (snd msg_builder) s)
       (call_close_handler reason)"

definition close_impl :: "'b ws_connection_t \<Rightarrow> 'b ws_connection_t outcome" where
  "close_impl s =
     bind_outcome (log_call Trace ''[ws_connection:{}] close'' [Arg_u64 (connection_id s)] s)
       (\<lambda>s1. let s2 = emit Socket_shutdown_both s1;
                  s3 = emit Socket_close s2
              in Normal (s3\<lparr>m_socket := (m_socket s3)\<lparr>is_open := False\<rparr>\<rparr>))"

text \<open>
  \<open>init_write_if_necessary\<close>. The completion callback bound to the asynchronous
  write runs later, as the input \<open>Write_completed\<close> below.
\<close>

definition init_write_if_necessary ::
  "nat \<Rightarrow> 'b ws_connection_t \<Rightarrow> 'b ws_connection_t outcome" where
  "init_write_if_necessary max_iov_len s =
     (if \<not> transmitting (m_resp_out_ctx s) then
        (case obtain_bufs max_iov_len (m_resp_out_ctx s) (m_awaiting_buffers_ws s) of
           (obtained, ctx1, q1) \<Rightarrow>
             (let s1 = s\<lparr>m_resp_out_ctx := ctx1, m_awaiting_buffers_ws := q1\<rparr>
              in if obtained then
                   (case create_bufs (m_resp_out_ctx s1) of
                      (bufs, ctx2) \<Rightarrow>
                        bind_outcome
                          (log_call Trace
                             ''[ws_connection:{}] sending resp data, buf count: {}''
                             [Arg_u64 (connection_id s1), Arg_size (length bufs)]
                             (s1\<lparr>m_resp_out_ctx := ctx2\<rparr>))
                          (\<lambda>s3. Normal (emit (Async_write bufs) s3)))
                 else if close_when_done (m_awaiting_buffers_ws s1) then
                   bind_outcome (call_close_handler ''user initiated'' s1) close_impl
                 else Normal s1))
      else Normal s)"

fun after_write ::
  "nat \<Rightarrow> error_code \<Rightarrow> nat \<Rightarrow> 'b ws_connection_t \<Rightarrow> 'b ws_connection_t outcome" where
  "after_write max_iov_len No_error written s =
     (let s1 = s\<lparr>m_resp_out_ctx := done_ctx (m_resp_out_ctx s)\<rparr>
      in bind_outcome
           (log_call Trace ''[ws_connection:{}] outgoing data was sent: {}b''
              [Arg_u64 (connection_id s1)] s1)
           (\<lambda>s2. if is_open (m_socket s2) then init_write_if_necessary max_iov_len s2
                  else Normal s2))"
| "after_write max_iov_len Operation_aborted written s = Normal s"
| "after_write max_iov_len (Other_error msg) written s =
     trigger_error_and_close msg
       (''[ws_connection:{}] unable to write: {}'', [Arg_u64 (connection_id s), Arg_str msg]) s"

definition graceful_close ::
  "nat \<Rightarrow> 'b ws_connection_t \<Rightarrow> 'b ws_connection_t outcome" where
  "graceful_close max_iov_len s =
     (if \<not> close_when_done (m_awaiting_buffers_ws s) then
        init_write_if_necessary max_iov_len
          (s\<lparr>m_awaiting_buffers_ws := set_close_when_done (m_awaiting_buffers_ws s)\<rparr>)
      else Normal s)"

definition write_data_impl ::
  "nat \<Rightarrow> 'b buffers_container_t \<Rightarrow> 'b ws_connection_t \<Rightarrow> 'b ws_connection_t outcome" where
  "write_data_impl max_iov_len bufs s =
     (if \<not> is_open (m_socket s) then
        log_call Warn
          ''[ws_connection:{}] try to write response, while socket is closed''
          [Arg_u64 (connection_id s)] s
      else if close_when_done (m_awaiting_buffers_ws s) then
        log_call Warn
          ''[ws_connection:{}] try to write response after sebsocket was closed''
          [Arg_u64 (connection_id s)] s
      else
        (case append_q bufs (m_awaiting_buffers_ws s) of
           Inl e \<Rightarrow> Assert_failure
         | Inr q' \<Rightarrow> init_write_if_necessary max_iov_len (s\<lparr>m_awaiting_buffers_ws := q'\<rparr>)))"

definition start_read_header :: "'b ws_connection_t \<Rightarrow> 'b ws_connection_t outcome" where
  "start_read_header s =
     bind_outcome
       (log_call Trace ''[ws_connection:{}] start reading header''
          [Arg_u64 (connection_id s)] s)
       (\<lambda>s1. Normal (emit Async_read_some s1))"

text \<open>Both branches of \<open>after_read_header\<close> are empty in this revision.\<close>

definition after_read_header ::
  "error_code \<Rightarrow> nat \<Rightarrow> 'b ws_connection_t \<Rightarrow> 'b ws_connection_t" where
  "after_read_header ec len s = (if ec = No_error then s else s)"

subsection \<open>Entry points on the strand\<close>

text \<open>
  The public operations dispatch their work to the connection's strand, where
  handlers run one at a time; each is one step of the model, with its \<open>try\<close> block
  and \<open>catch\<close> clause. \<open>after_write_callback\<close> is the completion callback that
  \<open>init_write_if_necessary\<close> binds to the asynchronous write. An exception thrown
  inside a \<open>catch\<close> clause leaves the step.
\<close>

definition close_ws :: "nat \<Rightarrow> 'b ws_connection_t \<Rightarrow> 'b ws_connection_t outcome" where
  "close_ws max_iov_len s =
     catch_outcome (graceful_close max_iov_len s)
       (\<lambda>what s'. log_call Error ''[ws_connection:{}] close operation error: {}''
                    [Arg_u64 (connection_id s'), Arg_str what] s')"

definition init_read :: "'b ws_connection_t \<Rightarrow> 'b ws_connection_t outcome" where
  "init_read s =
     catch_outcome (start_read_header s)
       (\<lambda>what s'. trigger_error_and_close what
          (''[ws_connection:{}] unable to init read: {}'',
           [Arg_u64 (connection_id s'), Arg_str what]) s')"

definition write_data ::
  "nat \<Rightarrow> 'b buffers_container_t \<Rightarrow> 'b ws_connection_t \<Rightarrow> 'b ws_connection_t outcome" where
  "write_data max_iov_len bufs s =
     catch_outcome (write_data_impl max_iov_len bufs s)
       (\<lambda>what s'. trigger_error_and_close what
          (''[ws_connection:{}] unable to write data: {}'',
           [Arg_u64 (connection_id s'), Arg_str what]) s')"

definition after_write_callback ::
  "nat \<Rightarrow> error_code \<Rightarrow> nat \<Rightarrow> 'b ws_connection_t \<Rightarrow> 'b ws_connection_t outcome" where
  "after_write_callback max_iov_len ec written s =
     catch_outcome (after_write max_iov_len ec written s)
       (\<lambda>what s'. trigger_error_and_close what
          (''[ws_connection:{}] after write callback error: {}'',
           [Arg_u64 (connection_id s'), Arg_str what]) s')"

text \<open>
  The asynchronous operations and the socket are taken to return normally inside
  the model; an exception that one of them raises inside a \<open>try\<close> block of
  \<open>init_read\<close>, \<open>write_data\<close> or the write callback is the input
  \<open>Exception_caught\<close>, which runs the \<open>catch\<close> clause of that site.
\<close>

datatype catch_site = In_init_read | In_write_data | In_write_callback

fun catch_format :: "catch_site \<Rightarrow> string" where
  "catch_format In_init_read = ''[ws_connection:{}] unable to init read: {}''"
| "catch_format In_write_data = ''[ws_connection:{}] unable to write data: {}''"
| "catch_format In_write_callback = ''[ws_connection:{}] after write callback error: {}''"

definition exception_caught ::
  "catch_site \<Rightarrow> string \<Rightarrow> 'b ws_connection_t \<Rightarrow> 'b ws_connection_t outcome" where
  "exception_caught site what s =
     trigger_error_and_close what
       (catch_format site, [Arg_u64 (connection_id s), Arg_str what]) s"

datatype 'b ws_input =
    Call_close
  | Call_init_read
  | Call_write_data "'b buffers_container_t"
  | Write_completed error_code nat
  | Read_header_completed error_code nat
  | Exception_caught catch_site string

fun handle_input ::
  "nat \<Rightarrow> 'b ws_input \<Rightarrow> 'b ws_connection_t \<Rightarrow> 'b ws_connection_t outcome" where
  "handle_input mx Call_close s = close_ws mx s"
| "handle_input mx Call_init_read s = init_read s"
| "handle_input mx (Call_write_data bufs) s = write_data mx bufs s"
| "handle_input mx (Write_completed ec written) s = after_write_callback mx ec written s"
| "handle_input mx (Read_header_completed ec len) s = Normal (after_read_header ec len s)"
| "handle_input mx (Exception_caught site what) s = exception_caught site what s"

text \<open>
  A sequence of inputs. An exception that leaves a step leaves the strand's handler;
  the connection stays as the step left it and later handlers run on it. A failed
  assertion ends the program.
\<close>

fun run ::
  "nat \<Rightarrow> 'b ws_input list \<Rightarrow> 'b ws_connection_t \<Rightarrow> failure + 'b ws_connection_t" where
  "run mx [] s = Inr s"
| "run mx (i # is) s =
     (case final_state (handle_input mx i s) of
        None \<Rightarrow> Inl Assertion_failed
      | Some s' \<Rightarrow> run mx is s')"

text \<open>Counting in a list of effects, and in the effects a connection has recorded.\<close>

fun is_close_handler_call :: "'b effect \<Rightarrow> bool" where
  "is_close_handler_call (Close_handler_call r) = True"
| "is_close_handler_call e = False"

fun is_async_write :: "'b effect \<Rightarrow> bool" where
  "is_async_write (Async_write bufs) = True"
| "is_async_write e = False"

definition count_close_handler_calls :: "'b effect list \<Rightarrow> nat" where
  "count_close_handler_calls es = length (filter is_close_handler_call es)"

definition count_async_writes :: "'b effect list \<Rightarrow> nat" where
  "count_async_writes es = length (filter is_async_write es)"

definition writes_issued :: "'b ws_connection_t \<Rightarrow> nat" where
  "writes_issued s = count_async_writes (effects s)"

text \<open>
  The connection together with the number of writes in flight. A write is in flight
  from the \<open>async_write\<close> that issues it to the run of its completion callback, and
  the substrate runs a completion callback only for a write that is in flight.
\<close>

fun is_write_completed :: "'b ws_input \<Rightarrow> bool" where
  "is_write_completed (Write_completed ec written) = True"
| "is_write_completed i = False"

inductive ws_step ::
  "nat \<Rightarrow> 'b ws_connection_t \<times> nat \<Rightarrow> 'b ws_connection_t \<times> nat \<Rightarrow> bool"
  for mx :: nat where
  completion:
    "0 < n \<Longrightarrow> final_state (after_write_callback mx ec written s) = Some s' \<Longrightarrow>
       ws_step mx (s, n) (s', n - 1 + (writes_issued s' - writes_issued s))"
| call:
    "\<not> is_write_completed i \<Longrightarrow> final_state (handle_input mx i s) = Some s' \<Longrightarrow>
       ws_step mx (s, n) (s', n + (writes_issued s' - writes_issued s))"

code_pred ws_step .

inductive ws_reachable ::
  "nat \<Rightarrow> 'b ws_connection_t \<Rightarrow> 'b ws_connection_t \<times> nat \<Rightarrow> bool"
  for mx :: nat and s0 :: "'b ws_connection_t" where
  start: "ws_reachable mx s0 (s0, 0)"
| step: "ws_reachable mx s0 c \<Longrightarrow> ws_step mx c c' \<Longrightarrow> ws_reachable mx s0 c'"

code_pred ws_reachable .

subsection \<open>Vocabulary for the properties\<close>

text \<open>
  \<open>ends_with out P\<close>: the outcome is not a failed assertion and the state it ends in,
  normally or by an exception, satisfies \<open>P\<close>. A step from \<open>s\<close> to \<open>s1\<close> is \<open>quiet\<close> when
  it leaves the output context, the queue, the logger and the connection id as they
  are, only adds to the recorded effects and issues no write; it \<open>issues_at_most_one\<close> when it issues no write or issues
  one from an idle context and leaves the context transmitting, and never ends a
  transmission.
\<close>

definition ends_with :: "'s outcome \<Rightarrow> ('s \<Rightarrow> bool) \<Rightarrow> bool" where
  "ends_with out P = (case final_state out of None \<Rightarrow> False | Some s1 \<Rightarrow> P s1)"

definition quiet :: "'b ws_connection_t \<Rightarrow> 'b ws_connection_t \<Rightarrow> bool" where
  "quiet s s1 \<longleftrightarrow>
     m_resp_out_ctx s1 = m_resp_out_ctx s \<and>
     m_awaiting_buffers_ws s1 = m_awaiting_buffers_ws s \<and>
     m_logger s1 = m_logger s \<and>
     connection_id s1 = connection_id s \<and>
     prefix (effects s) (effects s1) \<and>
     writes_issued s1 = writes_issued s"

definition issues_at_most_one :: "'b ws_connection_t \<Rightarrow> 'b ws_connection_t \<Rightarrow> bool" where
  "issues_at_most_one s s1 \<longleftrightarrow>
     prefix (effects s) (effects s1) \<and>
     writes_issued s \<le> writes_issued s1 \<and>
     writes_issued s1 \<le> writes_issued s + 1 \<and>
     (writes_issued s < writes_issued s1 \<longrightarrow>
        \<not> transmitting (m_resp_out_ctx s) \<and> transmitting (m_resp_out_ctx s1)) \<and>
     (transmitting (m_resp_out_ctx s) \<longrightarrow> transmitting (m_resp_out_ctx s1)) \<and>
     m_close_when_done (m_awaiting_buffers_ws s1) = m_close_when_done (m_awaiting_buffers_ws s)"

section \<open>Properties of the queue\<close>

lemma emplace_back_all_eq: "emplace_back_all v bufs = v @ bufs"
  by (induction bufs arbitrary: v) simp_all

lemma append_q_open:
  "\<not> m_close_when_done q \<Longrightarrow>
     append_q bufs q = Inr (q\<lparr>m_awaiting_buffers := m_awaiting_buffers q @ bufs\<rparr>)"
  by (simp add: append_q_def emplace_back_all_eq)

lemma append_all_open:
  "\<not> m_close_when_done q \<Longrightarrow>
     append_all bs q = Inr (q\<lparr>m_awaiting_buffers := m_awaiting_buffers q @ concat bs\<rparr>)"
proof (induction bs arbitrary: q)
  case Nil
  then show ?case by simp
next
  case (Cons b bs)
  let ?q' = "q\<lparr>m_awaiting_buffers := m_awaiting_buffers q @ b\<rparr>"
  have "append_all (b # bs) q = append_all bs ?q'"
    using Cons.prems by (simp add: append_q_open)
  also have "\<dots> = Inr (?q'\<lparr>m_awaiting_buffers := m_awaiting_buffers ?q' @ concat bs\<rparr>)"
    using Cons.prems by (intro Cons.IH) simp
  finally show ?case by simp
qed

lemma pop_ready_buffers_fresh:
  "pop_ready_buffers n [] q =
     (take n (m_awaiting_buffers q), q\<lparr>m_awaiting_buffers := drop n (m_awaiting_buffers q)\<rparr>)"
  by (simp add: pop_ready_buffers_def emplace_back_all_eq)

lemma pop_all_concat:
  "pop_all ns q = (rs, q') \<Longrightarrow>
     concat rs @ m_awaiting_buffers q' = m_awaiting_buffers q \<and>
     m_close_when_done q' = m_close_when_done q"
proof (induction ns arbitrary: q rs q')
  case Nil
  then show ?case by simp
next
  case (Cons n ns)
  let ?q1 = "q\<lparr>m_awaiting_buffers := drop n (m_awaiting_buffers q)\<rparr>"
  obtain rest q2 where r: "pop_all ns ?q1 = (rest, q2)"
    by (cases "pop_all ns ?q1")
  from Cons.prems r have eq: "rs = take n (m_awaiting_buffers q) # rest" "q' = q2"
    by (simp_all add: pop_ready_buffers_fresh)
  from Cons.IH [OF r] have "concat rest @ m_awaiting_buffers q2 = drop n (m_awaiting_buffers q)"
    and "m_close_when_done q2 = m_close_when_done q" by simp_all
  with eq show ?case by simp
qed

text \<open>
  Claim C6. With \<open>max_buf_count\<close> at least the queue size, \<open>pop_ready_buffers\<close> hands
  over the whole queue and leaves it empty. With a smaller \<open>max_buf_count\<close> the
  container receives, after what it held, exactly the first \<open>max_buf_count\<close> elements
  in queue order (they are all it holds when it was passed in empty), and the queue
  keeps the other \<open>size - max_buf_count\<close> elements in their order.
\<close>

theorem pop_ready_buffers_spec:
  "pop_ready_buffers n bufs q =
     (if length (m_awaiting_buffers q) \<le> n
      then (m_awaiting_buffers q, q\<lparr>m_awaiting_buffers := []\<rparr>)
      else (bufs @ take n (m_awaiting_buffers q),
            q\<lparr>m_awaiting_buffers := drop n (m_awaiting_buffers q)\<rparr>))
   \<and> (n < length (m_awaiting_buffers q) \<longrightarrow>
        length (take n (m_awaiting_buffers q)) = n \<and>
        length (drop n (m_awaiting_buffers q)) = length (m_awaiting_buffers q) - n \<and>
        take n (m_awaiting_buffers q) @ drop n (m_awaiting_buffers q) = m_awaiting_buffers q)"
  by (simp add: pop_ready_buffers_def emplace_back_all_eq)

theorem pop_ready_buffers_spec_witness:
  "pop_ready_buffers 2 [] \<lparr>m_close_when_done = False, m_awaiting_buffers = [1, 2, 3::nat]\<rparr> =
     ([1, 2], \<lparr>m_close_when_done = False, m_awaiting_buffers = [3]\<rparr>) \<and>
   pop_ready_buffers 10 [] \<lparr>m_close_when_done = False, m_awaiting_buffers = [3::nat]\<rparr> =
     ([3], \<lparr>m_close_when_done = False, m_awaiting_buffers = []\<rparr>)"
  using pop_ready_buffers_spec [of 2 "[]" "\<lparr>m_close_when_done = False, m_awaiting_buffers = [1, 2, 3::nat]\<rparr>"]
        pop_ready_buffers_spec [of 10 "[]" "\<lparr>m_close_when_done = False, m_awaiting_buffers = [3::nat]\<rparr>"]
  by simp

text \<open>
  Claim C7 (FIFO law). On a queue whose close flag is not set, \<open>append\<close> onto an empty
  queue adopts the incoming sequence and \<open>append\<close> onto a non-empty queue puts it
  after the elements already there; every sequence of \<open>append\<close> calls succeeds, and
  whenever a sequence of \<open>pop_ready_buffers\<close> calls then empties the queue, the
  concatenation of what the calls returned is the queue's earlier contents followed
  by the appended sequences in submission order (from an empty queue: exactly the
  appended sequences).
\<close>

theorem fifo_law:
  "\<not> m_close_when_done q \<longrightarrow>
     append_q bufs q =
       Inr (q\<lparr>m_awaiting_buffers :=
              (if m_awaiting_buffers q = [] then bufs else m_awaiting_buffers q @ bufs)\<rparr>) \<and>
     (\<exists>q1. append_all bs q = Inr q1 \<and>
        m_awaiting_buffers q1 = m_awaiting_buffers q @ concat bs \<and>
        (\<forall>ns rs q2. pop_all ns q1 = (rs, q2) \<and> m_awaiting_buffers q2 = [] \<longrightarrow>
           concat rs = m_awaiting_buffers q @ concat bs))"
proof
  assume open_q: "\<not> m_close_when_done q"
  let ?q1 = "q\<lparr>m_awaiting_buffers := m_awaiting_buffers q @ concat bs\<rparr>"
  have one: "append_q bufs q =
       Inr (q\<lparr>m_awaiting_buffers :=
              (if m_awaiting_buffers q = [] then bufs else m_awaiting_buffers q @ bufs)\<rparr>)"
    using open_q by (simp add: append_q_open)
  have all: "append_all bs q = Inr ?q1"
    using open_q by (rule append_all_open)
  have pops: "concat rs = m_awaiting_buffers q @ concat bs"
    if "pop_all ns ?q1 = (rs, q2)" and "m_awaiting_buffers q2 = []" for ns rs q2
    using pop_all_concat [OF that(1)] that(2) by simp
  from one all pops show
    "append_q bufs q =
       Inr (q\<lparr>m_awaiting_buffers :=
              (if m_awaiting_buffers q = [] then bufs else m_awaiting_buffers q @ bufs)\<rparr>) \<and>
     (\<exists>q1. append_all bs q = Inr q1 \<and>
        m_awaiting_buffers q1 = m_awaiting_buffers q @ concat bs \<and>
        (\<forall>ns rs q2. pop_all ns q1 = (rs, q2) \<and> m_awaiting_buffers q2 = [] \<longrightarrow>
           concat rs = m_awaiting_buffers q @ concat bs))"
    by auto
qed

theorem fifo_law_witness:
  "\<not> m_close_when_done \<lparr>m_close_when_done = False, m_awaiting_buffers = ([]::nat list)\<rparr> \<and>
   append_all [[1], [2, 3]] \<lparr>m_close_when_done = False, m_awaiting_buffers = ([]::nat list)\<rparr> =
     Inr \<lparr>m_close_when_done = False, m_awaiting_buffers = [1, 2, 3]\<rparr> \<and>
   pop_all [2, 10] \<lparr>m_close_when_done = False, m_awaiting_buffers = [1, 2, 3::nat]\<rparr> =
     ([[1, 2], [3]], \<lparr>m_close_when_done = False, m_awaiting_buffers = []\<rparr>) \<and>
   concat [[1, 2], [3::nat]] = concat [[1], [2, 3]]"
  using fifo_law [of "\<lparr>m_close_when_done = False, m_awaiting_buffers = ([]::nat list)\<rparr>"
                     "[]" "[[1], [2, 3]]"]
  by (simp add: pop_ready_buffers_def emplace_back_all_eq append_q_def)

text \<open>
  Claim C10. \<open>pop_ready_buffers\<close> treats the caller's container differently in its two
  branches: with \<open>max_buf_count\<close> at least the queue size the container is overwritten
  by the queue's contents, whatever it held; with a smaller \<open>max_buf_count\<close> the popped
  elements are put after what it held. So there is a non-empty container for which
  one branch drops its old elements and the other keeps them.
\<close>

theorem pop_ready_buffers_output_asymmetry:
  "(length (m_awaiting_buffers q) \<le> n \<longrightarrow>
      fst (pop_ready_buffers n bufs q) = m_awaiting_buffers q) \<and>
   (n < length (m_awaiting_buffers q) \<longrightarrow>
      fst (pop_ready_buffers n bufs q) = bufs @ take n (m_awaiting_buffers q)) \<and>
   (\<exists>(out :: nat list) q' n1 n2.
      out \<noteq> [] \<and> length (m_awaiting_buffers q') \<le> n1 \<and> n2 < length (m_awaiting_buffers q') \<and>
      fst (pop_ready_buffers n1 out q') = take n1 (m_awaiting_buffers q') \<and>
      fst (pop_ready_buffers n2 out q') = out @ take n2 (m_awaiting_buffers q'))"
proof -
  have "fst (pop_ready_buffers 2 [9] \<lparr>m_close_when_done = False, m_awaiting_buffers = [1, 2::nat]\<rparr>)
          = take 2 [1, 2]"
    and "fst (pop_ready_buffers 1 [9] \<lparr>m_close_when_done = False, m_awaiting_buffers = [1, 2::nat]\<rparr>)
          = [9] @ take 1 [1, 2]"
    by (simp_all add: pop_ready_buffers_def emplace_back_all_eq)
  then have "\<exists>(out :: nat list) q' n1 n2.
      out \<noteq> [] \<and> length (m_awaiting_buffers q') \<le> n1 \<and> n2 < length (m_awaiting_buffers q') \<and>
      fst (pop_ready_buffers n1 out q') = take n1 (m_awaiting_buffers q') \<and>
      fst (pop_ready_buffers n2 out q') = out @ take n2 (m_awaiting_buffers q')"
    by (intro exI [of _ "[9]"] exI [of _ "\<lparr>m_close_when_done = False, m_awaiting_buffers = [1, 2::nat]\<rparr>"]
          exI [of _ 2] exI [of _ 1]) simp
  then show ?thesis
    by (simp add: pop_ready_buffers_def emplace_back_all_eq)
qed

theorem pop_ready_buffers_output_asymmetry_witness:
  "fst (pop_ready_buffers 2 [9] \<lparr>m_close_when_done = False, m_awaiting_buffers = [1, 2::nat]\<rparr>) = [1, 2] \<and>
   fst (pop_ready_buffers 1 [9] \<lparr>m_close_when_done = False, m_awaiting_buffers = [1, 2::nat]\<rparr>) = [9, 1]"
  using pop_ready_buffers_output_asymmetry
          [of "\<lparr>m_close_when_done = False, m_awaiting_buffers = [1, 2::nat]\<rparr>" 2 "[9]"]
        pop_ready_buffers_output_asymmetry
          [of "\<lparr>m_close_when_done = False, m_awaiting_buffers = [1, 2::nat]\<rparr>" 1 "[9]"]
  by simp

section \<open>Properties of the connection\<close>

lemmas ws_defs =
  close_ws_def graceful_close_def init_read_def write_data_def after_write_callback_def
  write_data_impl_def init_write_if_necessary_def exception_caught_def
  trigger_error_and_close_def call_close_handler_def close_impl_def start_read_header_def
  after_read_header_def emit_def obtain_bufs_def create_bufs_def done_ctx_def transmitting_def
  pop_ready_buffers_def append_q_def close_when_done_def set_close_when_done_def
  emplace_back_all_eq Let_def ws_connection_ctor_def log_call_def bind_outcome_def
  catch_outcome_def

lemma emit_fields [simp]:
  "effects (emit e s) = effects s @ [e]"
  "m_close_handler (emit e s) = m_close_handler s"
  "m_socket (emit e s) = m_socket s"
  "m_resp_out_ctx (emit e s) = m_resp_out_ctx s"
  "m_awaiting_buffers_ws (emit e s) = m_awaiting_buffers_ws s"
  "m_logger (emit e s) = m_logger s"
  "connection_id (emit e s) = connection_id s"
  by (simp_all add: emit_def)

lemma count_close_handler_calls_simps [simp]:
  "count_close_handler_calls [] = 0"
  "count_close_handler_calls (e # es) =
     (if is_close_handler_call e then 1 else 0) + count_close_handler_calls es"
  "count_close_handler_calls (es @ es') =
     count_close_handler_calls es + count_close_handler_calls es'"
  by (simp_all add: count_close_handler_calls_def)

lemma count_async_writes_simps [simp]:
  "count_async_writes [] = 0"
  "count_async_writes (e # es) = (if is_async_write e then 1 else 0) + count_async_writes es"
  "count_async_writes (es @ es') = count_async_writes es + count_async_writes es'"
  by (simp_all add: count_async_writes_def)

text \<open>Placeholders of the format strings of the sources.\<close>

lemma placeholders_of_formats [simp]:
  "placeholders ''[ws_connection:{}] start connection with {}'' = 2"
  "placeholders ''[ws_connection:{}] close operation error: {}'' = 2"
  "placeholders ''[ws_connection:{}] unable to init read: {}'' = 2"
  "placeholders ''[ws_connection:{}] unable to write data: {}'' = 2"
  "placeholders ''[ws_connection:{}] start reading header'' = 1"
  "placeholders ''[ws_connection:{}] try to write response, while socket is closed'' = 1"
  "placeholders ''[ws_connection:{}] try to write response after sebsocket was closed'' = 1"
  "placeholders ''[ws_connection:{}] sending resp data, buf count: {}'' = 2"
  "placeholders ''[ws_connection:{}] after write callback error: {}'' = 2"
  "placeholders ''[ws_connection:{}] outgoing data was sent: {}b'' = 2"
  "placeholders ''[ws_connection:{}] unable to write: {}'' = 2"
  "placeholders ''[ws_connection:{}] close'' = 1"
  by simp_all

lemma placeholders_catch_format [simp]: "placeholders (catch_format site) = 2"
  by (cases site) simp_all

lemma log_call_matched:
  "placeholders fmt \<le> length args \<Longrightarrow>
     log_call level fmt args s = Normal (emit (Log level fmt args) s)"
  by (simp add: log_call_def Let_def)

lemma final_state_log_call [simp]:
  "final_state (log_call level fmt args s) = Some (emit (Log level fmt args) s)"
  by (simp add: log_call_def Let_def)

text \<open>The rules of \<open>ends_with\<close>.\<close>

lemma ends_withI: "final_state out = Some s1 \<Longrightarrow> P s1 \<Longrightarrow> ends_with out P"
  by (simp add: ends_with_def)

lemma ends_withE:
  assumes "ends_with out P"
  obtains s1 where "final_state out = Some s1" and "P s1"
  using assms by (auto simp: ends_with_def split: option.splits)

lemma ends_with_Normal [simp]: "ends_with (Normal s) P \<longleftrightarrow> P s"
  by (simp add: ends_with_def)

lemma ends_with_Thrown [simp]: "ends_with (Thrown what s) P \<longleftrightarrow> P s"
  by (simp add: ends_with_def)

lemma ends_with_Assert_failure [simp]: "\<not> ends_with Assert_failure P"
  by (simp add: ends_with_def)

lemma ends_with_mono: "ends_with out P \<Longrightarrow> (\<And>s1. P s1 \<Longrightarrow> Q s1) \<Longrightarrow> ends_with out Q"
  by (cases out) simp_all

lemma ends_with_bind:
  assumes "ends_with m Q" and "\<And>s1. Q s1 \<Longrightarrow> P s1" and "\<And>s1. Q s1 \<Longrightarrow> ends_with (f s1) P"
  shows "ends_with (bind_outcome m f) P"
  using assms by (cases m) (simp_all add: bind_outcome_def)

lemma ends_with_catch:
  assumes "ends_with m Q" and "\<And>s1. Q s1 \<Longrightarrow> P s1"
    and "\<And>what s1. Q s1 \<Longrightarrow> ends_with (clause what s1) P"
  shows "ends_with (catch_outcome m clause) P"
  using assms by (cases m) (simp_all add: catch_outcome_def)

lemma ends_with_log_call [simp]:
  "ends_with (log_call level fmt args s) P \<longleftrightarrow> P (emit (Log level fmt args) s)"
  by (simp add: ends_with_def)

text \<open>Quiet steps.\<close>

lemma quiet_refl [simp]: "quiet s s"
  by (simp add: quiet_def)

lemma quiet_trans: "quiet s s1 \<Longrightarrow> quiet s1 s2 \<Longrightarrow> quiet s s2"
  unfolding quiet_def by (auto intro: prefix_order.trans)

lemma quiet_emit [simp]: "\<not> is_async_write e \<Longrightarrow> quiet s1 s \<Longrightarrow> quiet s1 (emit e s)"
  by (simp add: quiet_def writes_issued_def)

lemma quiet_imp_one: "quiet s s1 \<Longrightarrow> issues_at_most_one s s1"
  by (simp add: quiet_def issues_at_most_one_def)

lemma one_then_quiet: "issues_at_most_one s s1 \<Longrightarrow> quiet s1 s2 \<Longrightarrow> issues_at_most_one s s2"
  unfolding quiet_def issues_at_most_one_def by (auto intro: prefix_order.trans)

lemma quiet_then_one: "quiet s s1 \<Longrightarrow> issues_at_most_one s1 s2 \<Longrightarrow> issues_at_most_one s s2"
  unfolding quiet_def issues_at_most_one_def by (auto intro: prefix_order.trans)

lemma call_close_handler_quiet: "ends_with (call_close_handler reason s) (quiet s)"
  by (simp add: call_close_handler_def Let_def quiet_def writes_issued_def
      split: option.splits close_handler_t.splits)

lemma trigger_error_and_close_quiet: "ends_with (trigger_error_and_close reason mb s) (quiet s)"
  unfolding trigger_error_and_close_def
proof (rule ends_with_bind [where Q = "quiet s"])
  show "ends_with (log_call Error (fst mb) (snd mb) s) (quiet s)" by simp
next
  fix s1 :: "'a ws_connection_t" assume q: "quiet s s1"
  show "ends_with (call_close_handler reason s1) (quiet s)"
    by (rule ends_with_mono [OF call_close_handler_quiet]) (rule quiet_trans [OF q])
qed

lemma close_impl_eq:
  "close_impl s =
     Normal (s\<lparr>m_socket := (m_socket s)\<lparr>is_open := False\<rparr>,
              effects := effects s @
                [Log Trace ''[ws_connection:{}] close'' [Arg_u64 (connection_id s)],
                 Socket_shutdown_both, Socket_close]\<rparr>)"
  by (simp add: close_impl_def log_call_matched bind_outcome_def emit_def Let_def)

lemma close_impl_quiet: "ends_with (close_impl s) (quiet s)"
  by (simp add: close_impl_eq quiet_def writes_issued_def)

lemma obtain_bufs_idle:
  assumes "\<not> m_transmitting ctx" and "obtain_bufs mx ctx q = (obtained, ctx1, q1)"
  shows "\<not> m_transmitting ctx1" and "m_close_when_done q1 = m_close_when_done q"
    and "obtained \<longleftrightarrow> m_bufs ctx1 \<noteq> []"
  using assms by (auto simp: obtain_bufs_def pop_ready_buffers_def split: if_splits)

lemma init_write_transmitting:
  "transmitting (m_resp_out_ctx s) \<Longrightarrow> init_write_if_necessary mx s = Normal s"
  by (simp add: init_write_if_necessary_def)

lemma init_write_idle:
  assumes idle: "\<not> transmitting (m_resp_out_ctx s)"
    and ob: "obtain_bufs mx (m_resp_out_ctx s) (m_awaiting_buffers_ws s) = (obtained, ctx1, q1)"
  shows "init_write_if_necessary mx s =
     (if obtained then
        Normal (s\<lparr>m_resp_out_ctx := ctx1\<lparr>m_transmitting := True\<rparr>,
                  m_awaiting_buffers_ws := q1,
                  effects := effects s @
                    [Log Trace ''[ws_connection:{}] sending resp data, buf count: {}''
                       [Arg_u64 (connection_id s), Arg_size (length (m_bufs ctx1))],
                     Async_write (m_bufs ctx1)]\<rparr>)
      else if m_close_when_done q1 then
        bind_outcome
          (call_close_handler ''user initiated''
             (s\<lparr>m_resp_out_ctx := ctx1, m_awaiting_buffers_ws := q1\<rparr>))
          close_impl
      else Normal (s\<lparr>m_resp_out_ctx := ctx1, m_awaiting_buffers_ws := q1\<rparr>))"
  using idle
  by (simp add: init_write_if_necessary_def ob create_bufs_def log_call_matched
      bind_outcome_def emit_def close_when_done_def Let_def)

lemma init_write_one: "ends_with (init_write_if_necessary mx s) (issues_at_most_one s)"
proof (cases "transmitting (m_resp_out_ctx s)")
  case True
  then show ?thesis by (simp add: init_write_transmitting quiet_imp_one)
next
  case False
  obtain obtained ctx1 q1 where
    ob: "obtain_bufs mx (m_resp_out_ctx s) (m_awaiting_buffers_ws s) = (obtained, ctx1, q1)"
    by (cases "obtain_bufs mx (m_resp_out_ctx s) (m_awaiting_buffers_ws s)")
  from False have idle: "\<not> m_transmitting (m_resp_out_ctx s)" by (simp add: transmitting_def)
  note facts = obtain_bufs_idle [OF idle ob]
  define s1 where "s1 = s\<lparr>m_resp_out_ctx := ctx1, m_awaiting_buffers_ws := q1\<rparr>"
  have one1: "issues_at_most_one s s1"
    using facts(1,2) idle
    by (simp add: s1_def issues_at_most_one_def writes_issued_def transmitting_def)
  show ?thesis
  proof (cases obtained)
    case True
    then show ?thesis
      using facts(2) idle
      by (simp add: init_write_idle [OF False ob] issues_at_most_one_def writes_issued_def
          transmitting_def)
  next
    case False
    then have not_obtained: "\<not> obtained" .
    show ?thesis
    proof (cases "m_close_when_done q1")
      case False
      with not_obtained one1 show ?thesis
        by (simp add: init_write_idle [OF \<open>\<not> transmitting (m_resp_out_ctx s)\<close> ob] s1_def)
    next
      case True
      have "ends_with (bind_outcome (call_close_handler ''user initiated'' s1) close_impl)
              (issues_at_most_one s)"
      proof (rule ends_with_bind [where Q = "quiet s1"])
        show "ends_with (call_close_handler ''user initiated'' s1) (quiet s1)"
          by (rule call_close_handler_quiet)
        show "issues_at_most_one s t" if "quiet s1 t" for t
          using one1 that by (rule one_then_quiet)
        show "ends_with (close_impl t) (issues_at_most_one s)" if "quiet s1 t" for t
        proof (rule ends_with_mono [OF close_impl_quiet])
          fix u assume "quiet t u"
          with that have "quiet s1 u" by (rule quiet_trans)
          with one1 show "issues_at_most_one s u" by (rule one_then_quiet)
        qed
      qed
      with not_obtained True show ?thesis
        by (simp add: init_write_idle [OF \<open>\<not> transmitting (m_resp_out_ctx s)\<close> ob] s1_def)
    qed
  qed
qed

lemma exception_caught_quiet: "ends_with (exception_caught site what s) (quiet s)"
  unfolding exception_caught_def by (rule trigger_error_and_close_quiet)

lemma graceful_close_closing:
  "close_when_done (m_awaiting_buffers_ws s) \<Longrightarrow> graceful_close mx s = Normal s"
  by (simp add: graceful_close_def)

lemma graceful_close_one:
  "ends_with (graceful_close mx s)
     (\<lambda>s1. issues_at_most_one
             (s\<lparr>m_awaiting_buffers_ws := set_close_when_done (m_awaiting_buffers_ws s)\<rparr>) s1)"
proof (cases "close_when_done (m_awaiting_buffers_ws s)")
  case True
  then have "s\<lparr>m_awaiting_buffers_ws := set_close_when_done (m_awaiting_buffers_ws s)\<rparr> = s"
    by (simp add: close_when_done_def set_close_when_done_def)
  with True show ?thesis by (simp add: graceful_close_closing quiet_imp_one)
next
  case False
  then show ?thesis by (simp add: graceful_close_def init_write_one)
qed

lemma graceful_close_sets_flag:
  "ends_with (graceful_close mx s) (\<lambda>s1. close_when_done (m_awaiting_buffers_ws s1))"
  by (rule ends_with_mono [OF graceful_close_one])
    (simp add: issues_at_most_one_def close_when_done_def set_close_when_done_def)

lemma write_data_impl_refused:
  assumes "\<not> is_open (m_socket s) \<or> close_when_done (m_awaiting_buffers_ws s)"
  shows "write_data_impl mx bufs s =
     Normal (emit (Log Warn
             (if \<not> is_open (m_socket s)
              then ''[ws_connection:{}] try to write response, while socket is closed''
              else ''[ws_connection:{}] try to write response after sebsocket was closed'')
             [Arg_u64 (connection_id s)]) s)"
  using assms by (auto simp: write_data_impl_def log_call_matched)

lemma write_data_impl_accepted:
  assumes "is_open (m_socket s)" and "\<not> close_when_done (m_awaiting_buffers_ws s)"
  shows "write_data_impl mx bufs s =
     init_write_if_necessary mx
       (s\<lparr>m_awaiting_buffers_ws :=
            (m_awaiting_buffers_ws s)\<lparr>m_awaiting_buffers :=
               m_awaiting_buffers (m_awaiting_buffers_ws s) @ bufs\<rparr>\<rparr>)"
  using assms by (simp add: write_data_impl_def close_when_done_def append_q_open)

lemma write_data_impl_one: "ends_with (write_data_impl mx bufs s) (issues_at_most_one s)"
proof (cases "\<not> is_open (m_socket s) \<or> close_when_done (m_awaiting_buffers_ws s)")
  case True
  then show ?thesis
    by (simp only: write_data_impl_refused ends_with_Normal) (simp add: quiet_imp_one)
next
  case False
  define s1 where "s1 = s\<lparr>m_awaiting_buffers_ws :=
            (m_awaiting_buffers_ws s)\<lparr>m_awaiting_buffers :=
               m_awaiting_buffers (m_awaiting_buffers_ws s) @ bufs\<rparr>\<rparr>"
  from False have eq: "write_data_impl mx bufs s = init_write_if_necessary mx s1"
    unfolding s1_def by (intro write_data_impl_accepted) simp_all
  have same: "issues_at_most_one s1 t \<Longrightarrow> issues_at_most_one s t" for t
    by (simp add: s1_def issues_at_most_one_def writes_issued_def)
  show ?thesis unfolding eq
    by (rule ends_with_mono [OF init_write_one]) (rule same)
qed

lemma write_data_one: "ends_with (write_data mx bufs s) (issues_at_most_one s)"
  unfolding write_data_def
proof (rule ends_with_catch [where Q = "issues_at_most_one s"])
  show "ends_with (write_data_impl mx bufs s) (issues_at_most_one s)"
    by (rule write_data_impl_one)
  show "issues_at_most_one s t" if "issues_at_most_one s t" for t by (rule that)
  show "ends_with (trigger_error_and_close what
          (''[ws_connection:{}] unable to write data: {}'',
           [Arg_u64 (connection_id t), Arg_str what]) t) (issues_at_most_one s)"
    if "issues_at_most_one s t" for what t
    by (rule ends_with_mono [OF trigger_error_and_close_quiet]) (rule one_then_quiet [OF that])
qed

lemma init_read_quiet: "ends_with (init_read s) (quiet s)"
  by (simp add: init_read_def start_read_header_def log_call_matched bind_outcome_def
      catch_outcome_def)

lemma close_ws_one:
  "ends_with (close_ws mx s)
     (\<lambda>s1. issues_at_most_one
             (s\<lparr>m_awaiting_buffers_ws := set_close_when_done (m_awaiting_buffers_ws s)\<rparr>) s1)"
  unfolding close_ws_def
proof (rule ends_with_catch [OF graceful_close_one])
  fix t
  assume "issues_at_most_one
     (s\<lparr>m_awaiting_buffers_ws := set_close_when_done (m_awaiting_buffers_ws s)\<rparr>) t"
  then show "issues_at_most_one
     (s\<lparr>m_awaiting_buffers_ws := set_close_when_done (m_awaiting_buffers_ws s)\<rparr>) t" .
next
  fix what t
  assume "issues_at_most_one
     (s\<lparr>m_awaiting_buffers_ws := set_close_when_done (m_awaiting_buffers_ws s)\<rparr>) t"
  then show "ends_with
          (log_call Error ''[ws_connection:{}] close operation error: {}''
            [Arg_u64 (connection_id t), Arg_str what] t)
          (issues_at_most_one
            (s\<lparr>m_awaiting_buffers_ws := set_close_when_done (m_awaiting_buffers_ws s)\<rparr>))"
    by (simp add: issues_at_most_one_def writes_issued_def)
qed

lemma after_write_ok_evaluated:
  assumes "trace_evaluated (m_logger s)"
  shows "after_write mx No_error written s =
     Thrown format_error_what
       (s\<lparr>m_resp_out_ctx := done_ctx (m_resp_out_ctx s),
          effects := effects s @
            [Log Trace ''[ws_connection:{}] outgoing data was sent: {}b''
               [Arg_u64 (connection_id s)]]\<rparr>)"
  using assms by (simp add: log_call_def bind_outcome_def emit_def Let_def)

lemma after_write_ok_silent:
  assumes "\<not> trace_evaluated (m_logger s)"
  shows "after_write mx No_error written s =
     (if is_open (m_socket s)
      then init_write_if_necessary mx
             (s\<lparr>m_resp_out_ctx := done_ctx (m_resp_out_ctx s),
                effects := effects s @
                  [Log Trace ''[ws_connection:{}] outgoing data was sent: {}b''
                     [Arg_u64 (connection_id s)]]\<rparr>)
      else Normal
             (s\<lparr>m_resp_out_ctx := done_ctx (m_resp_out_ctx s),
                effects := effects s @
                  [Log Trace ''[ws_connection:{}] outgoing data was sent: {}b''
                     [Arg_u64 (connection_id s)]]\<rparr>))"
  using assms by (simp add: log_call_def bind_outcome_def emit_def Let_def)

text \<open>What a completion may do: issue at most one write, and be transmitting then.\<close>

lemma after_write_one:
  "ends_with (after_write mx ec written s)
     (\<lambda>s1. prefix (effects s) (effects s1) \<and>
            writes_issued s \<le> writes_issued s1 \<and> writes_issued s1 \<le> writes_issued s + 1 \<and>
            (writes_issued s < writes_issued s1 \<longrightarrow> transmitting (m_resp_out_ctx s1)))"
  (is "ends_with _ ?P")
proof (cases ec)
  case No_error
  define s2 where "s2 = s\<lparr>m_resp_out_ctx := done_ctx (m_resp_out_ctx s),
          effects := effects s @
            [Log Trace ''[ws_connection:{}] outgoing data was sent: {}b''
               [Arg_u64 (connection_id s)]]\<rparr>"
  have p2: "?P s2" by (simp add: s2_def writes_issued_def)
  have w2: "writes_issued s2 = writes_issued s" "prefix (effects s) (effects s2)"
    by (simp_all add: s2_def writes_issued_def)
  have step: "?P t" if "issues_at_most_one s2 t" for t
    using that w2 unfolding issues_at_most_one_def by (auto intro: prefix_order.trans)
  show ?thesis
  proof (cases "trace_evaluated (m_logger s)")
    case True
    then show ?thesis unfolding No_error
      by (simp only: after_write_ok_evaluated ends_with_Thrown) (use p2 in \<open>simp add: s2_def\<close>)
  next
    case False
    then have eq: "after_write mx ec written s =
        (if is_open (m_socket s) then init_write_if_necessary mx s2 else Normal s2)"
      unfolding No_error s2_def by (rule after_write_ok_silent)
    show ?thesis
    proof (cases "is_open (m_socket s)")
      case True
      then have "after_write mx ec written s = init_write_if_necessary mx s2"
        by (simp only: eq if_True)
      then show ?thesis
        using ends_with_mono [OF init_write_one [of mx s2], of ?P] step by simp
    next
      case False
      then have "after_write mx ec written s = Normal s2" by (simp only: eq if_False)
      then show ?thesis using p2 by simp
    qed
  qed
next
  case Operation_aborted
  then show ?thesis by simp
next
  case (Other_error msg)
  have "ends_with (after_write mx ec written s) (quiet s)"
    unfolding Other_error after_write.simps by (rule trigger_error_and_close_quiet)
  then show ?thesis
    by (rule ends_with_mono) (simp add: quiet_def)
qed

lemma after_write_callback_one:
  "ends_with (after_write_callback mx ec written s)
     (\<lambda>s1. prefix (effects s) (effects s1) \<and>
            writes_issued s \<le> writes_issued s1 \<and> writes_issued s1 \<le> writes_issued s + 1 \<and>
            (writes_issued s < writes_issued s1 \<longrightarrow> transmitting (m_resp_out_ctx s1)))"
  (is "ends_with _ ?P")
  unfolding after_write_callback_def
proof (rule ends_with_catch [OF after_write_one])
  fix t assume "?P t" then show "?P t" .
next
  fix what t assume t: "?P t"
  show "ends_with (trigger_error_and_close what
          (''[ws_connection:{}] after write callback error: {}'',
           [Arg_u64 (connection_id t), Arg_str what]) t) ?P"
  proof (rule ends_with_mono [OF trigger_error_and_close_quiet])
    fix u assume "quiet t u"
    with t show "?P u" unfolding quiet_def by (auto intro: prefix_order.trans)
  qed
qed

lemma call_one:
  assumes "\<not> is_write_completed i"
  shows "ends_with (handle_input mx i s)
     (\<lambda>s1. prefix (effects s) (effects s1) \<and>
            writes_issued s \<le> writes_issued s1 \<and> writes_issued s1 \<le> writes_issued s + 1 \<and>
            (writes_issued s < writes_issued s1 \<longrightarrow>
               \<not> transmitting (m_resp_out_ctx s) \<and> transmitting (m_resp_out_ctx s1)) \<and>
            (transmitting (m_resp_out_ctx s) \<longrightarrow> transmitting (m_resp_out_ctx s1)))"
  (is "ends_with _ ?P")
proof -
  have from_one: "?P t" if "issues_at_most_one s t" for t
    using that by (simp add: issues_at_most_one_def)
  have from_quiet: "?P t" if "quiet s t" for t
    using quiet_imp_one [OF that] by (rule from_one)
  show ?thesis
  proof (cases i)
    case Call_close
    define s1 where
      "s1 = s\<lparr>m_awaiting_buffers_ws := set_close_when_done (m_awaiting_buffers_ws s)\<rparr>"
    have "?P t" if "issues_at_most_one s1 t" for t
      using that by (simp add: issues_at_most_one_def s1_def writes_issued_def)
    with close_ws_one [of mx s] show ?thesis
      unfolding Call_close handle_input.simps s1_def by (rule ends_with_mono)
  next
    case Call_init_read
    show ?thesis unfolding Call_init_read handle_input.simps
      by (rule ends_with_mono [OF init_read_quiet]) (rule from_quiet)
  next
    case (Call_write_data bufs)
    show ?thesis unfolding Call_write_data handle_input.simps
      by (rule ends_with_mono [OF write_data_one]) (rule from_one)
  next
    case (Write_completed ec written)
    with assms show ?thesis by simp
  next
    case (Read_header_completed ec len)
    show ?thesis unfolding Read_header_completed handle_input.simps
      using from_quiet [of s] by (simp add: after_read_header_def)
  next
    case (Exception_caught site what)
    show ?thesis unfolding Exception_caught handle_input.simps
      by (rule ends_with_mono [OF exception_caught_quiet]) (rule from_quiet)
  qed
qed

lemma writes_issued_prefix:
  "prefix (effects s) (effects s') \<Longrightarrow> writes_issued s \<le> writes_issued s'"
  by (auto simp: prefix_def writes_issued_def)

lemma ws_step_in_flight:
  assumes st: "ws_step mx (s, n) (s', n')"
    and le: "n \<le> 1" and tr: "0 < n \<longrightarrow> transmitting (m_resp_out_ctx s)"
  shows "n' \<le> 1 \<and> (0 < n' \<longrightarrow> transmitting (m_resp_out_ctx s'))"
  using st
proof (cases rule: ws_step.cases)
  case (completion ec written)
  from after_write_callback_one [of mx ec written s] completion(3)
  have p: "writes_issued s \<le> writes_issued s'" "writes_issued s' \<le> writes_issued s + 1"
    "writes_issued s < writes_issued s' \<longrightarrow> transmitting (m_resp_out_ctx s')"
    by (simp_all add: ends_with_def)
  have n1: "n = 1" using completion(2) le by simp
  from p show ?thesis unfolding completion(1) n1 by auto
next
  case (call i)
  from call_one [OF call(2), of mx s] call(3)
  have p: "writes_issued s \<le> writes_issued s'" "writes_issued s' \<le> writes_issued s + 1"
    "writes_issued s < writes_issued s' \<longrightarrow>
       \<not> transmitting (m_resp_out_ctx s) \<and> transmitting (m_resp_out_ctx s')"
    "transmitting (m_resp_out_ctx s) \<longrightarrow> transmitting (m_resp_out_ctx s')"
    by (simp_all add: ends_with_def)
  from p le tr show ?thesis unfolding call(1) by auto
qed

lemma ws_reachable_in_flight:
  "ws_reachable mx s0 c \<Longrightarrow> snd c \<le> 1 \<and> (0 < snd c \<longrightarrow> transmitting (m_resp_out_ctx (fst c)))"
proof (induction rule: ws_reachable.induct)
  case start
  show ?case by simp
next
  case (step c c')
  from step.hyps(2) have "ws_step mx (fst c, snd c) (fst c', snd c')" by simp
  then show ?case using step.IH by (intro ws_step_in_flight [of mx "fst c" "snd c"]) simp_all
qed

text \<open>
  Claim C2. While the output context is transmitting, \<open>init_write_if_necessary\<close>
  returns normally with the connection unchanged: no effect is recorded (no write, no
  handler invocation, no socket close) and the queue is untouched. In any state it
  issues at most one write, only when not transmitting, and is transmitting
  afterwards. Hence in every state reachable from a connection with no write in
  flight, at most one write is in flight, and the context is transmitting while one
  is.
\<close>

theorem one_write_in_flight:
  "(transmitting (m_resp_out_ctx s) \<longrightarrow> init_write_if_necessary mx s = Normal s) \<and>
   (\<exists>s1 es. final_state (init_write_if_necessary mx s) = Some s1 \<and>
        effects s1 = effects s @ es \<and>
        count_async_writes es \<le> 1 \<and>
        (0 < count_async_writes es \<longrightarrow>
           \<not> transmitting (m_resp_out_ctx s) \<and> transmitting (m_resp_out_ctx s1))) \<and>
   (ws_reachable mx s0 (s', n) \<longrightarrow> n \<le> 1 \<and> (0 < n \<longrightarrow> transmitting (m_resp_out_ctx s')))"
proof (intro conjI)
  show "transmitting (m_resp_out_ctx s) \<longrightarrow> init_write_if_necessary mx s = Normal s"
    by (simp add: init_write_transmitting)
  from init_write_one [of mx s] obtain s1 where s1:
    "final_state (init_write_if_necessary mx s) = Some s1" "issues_at_most_one s s1"
    by (rule ends_withE)
  from s1(2) obtain es where es: "effects s1 = effects s @ es"
    by (auto simp: issues_at_most_one_def prefix_def)
  then have d: "writes_issued s1 = writes_issued s + count_async_writes es"
    by (simp add: writes_issued_def)
  have "count_async_writes es \<le> 1"
    using s1(2) d by (simp add: issues_at_most_one_def)
  moreover have "0 < count_async_writes es \<longrightarrow>
           \<not> transmitting (m_resp_out_ctx s) \<and> transmitting (m_resp_out_ctx s1)"
    using s1(2) d by (simp add: issues_at_most_one_def)
  ultimately show "\<exists>s1 es. final_state (init_write_if_necessary mx s) = Some s1 \<and>
        effects s1 = effects s @ es \<and>
        count_async_writes es \<le> 1 \<and>
        (0 < count_async_writes es \<longrightarrow>
           \<not> transmitting (m_resp_out_ctx s) \<and> transmitting (m_resp_out_ctx s1))"
    using s1(1) es by (intro exI [of _ s1] exI [of _ es] conjI)
  show "ws_reachable mx s0 (s', n) \<longrightarrow>
          n \<le> 1 \<and> (0 < n \<longrightarrow> transmitting (m_resp_out_ctx s'))"
    using ws_reachable_in_flight [of mx s0 "(s', n)"] by simp
qed

theorem one_write_in_flight_witness:
  "ws_reachable 64
     (\<lparr>connection_id = 1,
         m_socket = \<lparr>is_open = True, remote_endpoint = ''peer''\<rparr>,
         m_close_handler = Some Handler_returns,
         m_resp_out_ctx = \<lparr>m_transmitting = False, m_bufs = ([]::nat list)\<rparr>,
         m_awaiting_buffers_ws = \<lparr>m_close_when_done = False, m_awaiting_buffers = []\<rparr>,
         m_logger = \<lparr>trace_evaluated = False, warn_evaluated = False, error_evaluated = False\<rparr>,
         effects = []\<rparr>)
     (\<lparr>connection_id = 1,
         m_socket = \<lparr>is_open = True, remote_endpoint = ''peer''\<rparr>,
         m_close_handler = Some Handler_returns,
         m_resp_out_ctx = \<lparr>m_transmitting = True, m_bufs = [1::nat]\<rparr>,
         m_awaiting_buffers_ws = \<lparr>m_close_when_done = False, m_awaiting_buffers = [2]\<rparr>,
         m_logger = \<lparr>trace_evaluated = False, warn_evaluated = False, error_evaluated = False\<rparr>,
         effects = [Log Trace ''[ws_connection:{}] sending resp data, buf count: {}'' [Arg_u64 1, Arg_size 1],
            Async_write [1]]\<rparr>, 1) \<and>
   transmitting (m_resp_out_ctx (\<lparr>connection_id = 1,
       m_socket = \<lparr>is_open = True, remote_endpoint = ''peer''\<rparr>,
       m_close_handler = Some Handler_returns,
       m_resp_out_ctx = \<lparr>m_transmitting = True, m_bufs = [1::nat]\<rparr>,
       m_awaiting_buffers_ws = \<lparr>m_close_when_done = False, m_awaiting_buffers = [2]\<rparr>,
       m_logger = \<lparr>trace_evaluated = False, warn_evaluated = False, error_evaluated = False\<rparr>,
       effects = [Log Trace ''[ws_connection:{}] sending resp data, buf count: {}'' [Arg_u64 1, Arg_size 1],
          Async_write [1]]\<rparr>)) \<and>
   init_write_if_necessary 64 (\<lparr>connection_id = 1,
       m_socket = \<lparr>is_open = True, remote_endpoint = ''peer''\<rparr>,
       m_close_handler = Some Handler_returns,
       m_resp_out_ctx = \<lparr>m_transmitting = True, m_bufs = [1::nat]\<rparr>,
       m_awaiting_buffers_ws = \<lparr>m_close_when_done = False, m_awaiting_buffers = [2]\<rparr>,
       m_logger = \<lparr>trace_evaluated = False, warn_evaluated = False, error_evaluated = False\<rparr>,
       effects = [Log Trace ''[ws_connection:{}] sending resp data, buf count: {}'' [Arg_u64 1, Arg_size 1],
          Async_write [1]]\<rparr>) =
     Normal (\<lparr>connection_id = 1,
         m_socket = \<lparr>is_open = True, remote_endpoint = ''peer''\<rparr>,
         m_close_handler = Some Handler_returns,
         m_resp_out_ctx = \<lparr>m_transmitting = True, m_bufs = [1::nat]\<rparr>,
         m_awaiting_buffers_ws = \<lparr>m_close_when_done = False, m_awaiting_buffers = [2]\<rparr>,
         m_logger = \<lparr>trace_evaluated = False, warn_evaluated = False, error_evaluated = False\<rparr>,
         effects = [Log Trace ''[ws_connection:{}] sending resp data, buf count: {}'' [Arg_u64 1, Arg_size 1],
            Async_write [1]]\<rparr>)"
proof -
  let ?s0 = "\<lparr>connection_id = 1,
      m_socket = \<lparr>is_open = True, remote_endpoint = ''peer''\<rparr>,
      m_close_handler = Some Handler_returns,
      m_resp_out_ctx = \<lparr>m_transmitting = False, m_bufs = ([]::nat list)\<rparr>,
      m_awaiting_buffers_ws = \<lparr>m_close_when_done = False, m_awaiting_buffers = []\<rparr>,
      m_logger = \<lparr>trace_evaluated = False, warn_evaluated = False, error_evaluated = False\<rparr>,
      effects = []\<rparr>"
  let ?s1 = "\<lparr>connection_id = 1,
      m_socket = \<lparr>is_open = True, remote_endpoint = ''peer''\<rparr>,
      m_close_handler = Some Handler_returns,
      m_resp_out_ctx = \<lparr>m_transmitting = True, m_bufs = [1::nat]\<rparr>,
      m_awaiting_buffers_ws = \<lparr>m_close_when_done = False, m_awaiting_buffers = []\<rparr>,
      m_logger = \<lparr>trace_evaluated = False, warn_evaluated = False, error_evaluated = False\<rparr>,
      effects = [Log Trace ''[ws_connection:{}] sending resp data, buf count: {}'' [Arg_u64 1, Arg_size 1],
         Async_write [1]]\<rparr>"
  let ?s2 = "\<lparr>connection_id = 1,
      m_socket = \<lparr>is_open = True, remote_endpoint = ''peer''\<rparr>,
      m_close_handler = Some Handler_returns,
      m_resp_out_ctx = \<lparr>m_transmitting = True, m_bufs = [1::nat]\<rparr>,
      m_awaiting_buffers_ws = \<lparr>m_close_when_done = False, m_awaiting_buffers = [2]\<rparr>,
      m_logger = \<lparr>trace_evaluated = False, warn_evaluated = False, error_evaluated = False\<rparr>,
      effects = [Log Trace ''[ws_connection:{}] sending resp data, buf count: {}'' [Arg_u64 1, Arg_size 1],
         Async_write [1]]\<rparr>"
  have r0: "ws_reachable 64 ?s0 (?s0, 0)" by (rule ws_reachable.start)
  have st1: "ws_step 64 (?s0, 0) (?s1, 1)"
    using ws_step.call [of "Call_write_data [1]" 64 ?s0 ?s1 0]
    by (simp add: ws_defs writes_issued_def)
  have st2: "ws_step 64 (?s1, 1) (?s2, 1)"
    using ws_step.call [of "Call_write_data [2]" 64 ?s1 ?s2 1]
    by (simp add: ws_defs writes_issued_def)
  have r2: "ws_reachable 64 ?s0 (?s2, 1)"
    by (rule ws_reachable.step [OF ws_reachable.step [OF r0 st1] st2])
  have t2: "transmitting (m_resp_out_ctx ?s2)" by (simp add: transmitting_def)
  from one_write_in_flight [of ?s2 64 ?s0 ?s2 1] r2 t2 show ?thesis by simp
qed

text \<open>
  Claim C8. Setting the close flag twice leaves the queue as setting it once does. A
  \<open>graceful_close\<close> on a connection whose flag is already set returns normally with
  the connection unchanged (no flag write, no queue change, no effect recorded, so no
  \<open>init_write_if_necessary\<close>); \<open>graceful_close\<close> always ends in such a state, so a
  second \<open>graceful_close\<close>, or a second \<open>close\<close>, does nothing.
\<close>

theorem close_request_idempotent:
  "set_close_when_done (set_close_when_done q) = set_close_when_done q \<and>
   (close_when_done (m_awaiting_buffers_ws s) \<longrightarrow> graceful_close mx s = Normal s) \<and>
   (\<exists>s1. final_state (graceful_close mx s) = Some s1 \<and>
         graceful_close mx s1 = Normal s1 \<and> close_ws mx s1 = Normal s1)"
proof (intro conjI)
  show "set_close_when_done (set_close_when_done q) = set_close_when_done q"
    by (simp add: set_close_when_done_def)
  show "close_when_done (m_awaiting_buffers_ws s) \<longrightarrow> graceful_close mx s = Normal s"
    by (simp add: graceful_close_closing)
  from graceful_close_sets_flag [of mx s] obtain s1 where
    s1: "final_state (graceful_close mx s) = Some s1" "close_when_done (m_awaiting_buffers_ws s1)"
    by (rule ends_withE)
  from s1(2) have "graceful_close mx s1 = Normal s1" by (rule graceful_close_closing)
  then have "graceful_close mx s1 = Normal s1 \<and> close_ws mx s1 = Normal s1"
    by (simp add: close_ws_def catch_outcome_def)
  with s1(1) show "\<exists>s1. final_state (graceful_close mx s) = Some s1 \<and>
         graceful_close mx s1 = Normal s1 \<and> close_ws mx s1 = Normal s1"
    by (intro exI [of _ s1] conjI) simp_all
qed

theorem close_request_idempotent_witness:
  "close_when_done (m_awaiting_buffers_ws (\<lparr>connection_id = 1,
      m_socket = \<lparr>is_open = True, remote_endpoint = ''peer''\<rparr>,
      m_close_handler = Some Handler_returns,
      m_resp_out_ctx = \<lparr>m_transmitting = True, m_bufs = [1::nat]\<rparr>,
      m_awaiting_buffers_ws = \<lparr>m_close_when_done = True, m_awaiting_buffers = [2]\<rparr>,
      m_logger = \<lparr>trace_evaluated = False, warn_evaluated = False, error_evaluated = False\<rparr>,
      effects = []\<rparr>)) \<and>
   graceful_close 64 (\<lparr>connection_id = 1,
       m_socket = \<lparr>is_open = True, remote_endpoint = ''peer''\<rparr>,
       m_close_handler = Some Handler_returns,
       m_resp_out_ctx = \<lparr>m_transmitting = True, m_bufs = [1::nat]\<rparr>,
       m_awaiting_buffers_ws = \<lparr>m_close_when_done = True, m_awaiting_buffers = [2]\<rparr>,
       m_logger = \<lparr>trace_evaluated = False, warn_evaluated = False, error_evaluated = False\<rparr>,
       effects = []\<rparr>) =
     Normal (\<lparr>connection_id = 1,
         m_socket = \<lparr>is_open = True, remote_endpoint = ''peer''\<rparr>,
         m_close_handler = Some Handler_returns,
         m_resp_out_ctx = \<lparr>m_transmitting = True, m_bufs = [1::nat]\<rparr>,
         m_awaiting_buffers_ws = \<lparr>m_close_when_done = True, m_awaiting_buffers = [2]\<rparr>,
         m_logger = \<lparr>trace_evaluated = False, warn_evaluated = False, error_evaluated = False\<rparr>,
         effects = []\<rparr>)"
  using close_request_idempotent
    [of "\<lparr>m_close_when_done = False, m_awaiting_buffers = [2::nat]\<rparr>"
      "\<lparr>connection_id = 1,
          m_socket = \<lparr>is_open = True, remote_endpoint = ''peer''\<rparr>,
          m_close_handler = Some Handler_returns,
          m_resp_out_ctx = \<lparr>m_transmitting = True, m_bufs = [1::nat]\<rparr>,
          m_awaiting_buffers_ws = \<lparr>m_close_when_done = True, m_awaiting_buffers = [2]\<rparr>,
          m_logger = \<lparr>trace_evaluated = False, warn_evaluated = False, error_evaluated = False\<rparr>,
          effects = []\<rparr>" 64]
  by (simp add: close_when_done_def)

lemma handle_input_total: "ends_with (handle_input mx i s) (\<lambda>s1. True)"
proof (cases "is_write_completed i")
  case False
  then show ?thesis by (rule ends_with_mono [OF call_one]) simp
next
  case True
  then obtain ec written where "i = Write_completed ec written" by (cases i) simp_all
  then show ?thesis
    using ends_with_mono [OF after_write_callback_one [of mx ec written s], of "\<lambda>s1. True"]
    by simp
qed

lemma run_total: "\<exists>s'. run mx inputs s = Inr s'"
proof (induction inputs arbitrary: s)
  case Nil
  show ?case by simp
next
  case (Cons i inputs)
  from handle_input_total [of mx i s] obtain s1 where
    "final_state (handle_input mx i s) = Some s1" by (rule ends_withE)
  then show ?case using Cons.IH [of s1] by simp
qed

text \<open>
  Claim C9. \<open>append\<close> fails its assertion exactly when the close flag is set.
  \<open>write_data_impl\<close> reaches \<open>append\<close> only with the socket open and the flag not set,
  where it succeeds; no other operation of the connection calls it. So neither
  \<open>write_data_impl\<close> nor \<open>write_data\<close> fails the assertion, and neither does any
  sequence of inputs run from any state.
\<close>

theorem append_assertion_unreachable:
  "(append_q bufs q = Inl Assertion_failed \<longleftrightarrow> m_close_when_done q) \<and>
   write_data_impl mx bufs s =
     (if \<not> is_open (m_socket s) \<or> close_when_done (m_awaiting_buffers_ws s)
      then Normal (emit (Log Warn
             (if \<not> is_open (m_socket s)
              then ''[ws_connection:{}] try to write response, while socket is closed''
              else ''[ws_connection:{}] try to write response after sebsocket was closed'')
             [Arg_u64 (connection_id s)]) s)
      else init_write_if_necessary mx
             (s\<lparr>m_awaiting_buffers_ws :=
                  (m_awaiting_buffers_ws s)\<lparr>m_awaiting_buffers :=
                     m_awaiting_buffers (m_awaiting_buffers_ws s) @ bufs\<rparr>\<rparr>)) \<and>
   init_write_if_necessary mx s \<noteq> Assert_failure \<and>
   write_data_impl mx bufs s \<noteq> Assert_failure \<and>
   write_data mx bufs s \<noteq> Assert_failure \<and>
   run mx inputs s \<noteq> Inl Assertion_failed"
proof (intro conjI)
  show "append_q bufs q = Inl Assertion_failed \<longleftrightarrow> m_close_when_done q"
    by (simp add: append_q_def)
  show "write_data_impl mx bufs s =
     (if \<not> is_open (m_socket s) \<or> close_when_done (m_awaiting_buffers_ws s)
      then Normal (emit (Log Warn
             (if \<not> is_open (m_socket s)
              then ''[ws_connection:{}] try to write response, while socket is closed''
              else ''[ws_connection:{}] try to write response after sebsocket was closed'')
             [Arg_u64 (connection_id s)]) s)
      else init_write_if_necessary mx
             (s\<lparr>m_awaiting_buffers_ws :=
                  (m_awaiting_buffers_ws s)\<lparr>m_awaiting_buffers :=
                     m_awaiting_buffers (m_awaiting_buffers_ws s) @ bufs\<rparr>\<rparr>))"
  proof (cases "\<not> is_open (m_socket s) \<or> close_when_done (m_awaiting_buffers_ws s)")
    case True
    then show ?thesis by (simp only: write_data_impl_refused if_True)
  next
    case False
    then show ?thesis by (simp add: write_data_impl_accepted)
  qed
  show "init_write_if_necessary mx s \<noteq> Assert_failure"
    using init_write_one [of mx s] by (auto simp: ends_with_def)
  show "write_data_impl mx bufs s \<noteq> Assert_failure"
    using write_data_impl_one [of mx bufs s] by (auto simp: ends_with_def)
  show "write_data mx bufs s \<noteq> Assert_failure"
    using write_data_one [of mx bufs s] by (auto simp: ends_with_def)
  show "run mx inputs s \<noteq> Inl Assertion_failed"
    using run_total [of mx inputs s] by auto
qed

theorem append_assertion_unreachable_witness:
  "append_q [5::nat] \<lparr>m_close_when_done = True, m_awaiting_buffers = []\<rparr> = Inl Assertion_failed \<and>
   (case run 64 [Call_write_data [1::nat], Call_close, Call_write_data [2],
                 Write_completed No_error 1, Call_write_data [3]]
         (\<lparr>connection_id = 1,
             m_socket = \<lparr>is_open = True, remote_endpoint = ''peer''\<rparr>,
             m_close_handler = Some (Handler_throws ''boom''),
             m_resp_out_ctx = \<lparr>m_transmitting = False, m_bufs = ([]::nat list)\<rparr>,
             m_awaiting_buffers_ws = \<lparr>m_close_when_done = False, m_awaiting_buffers = []\<rparr>,
             m_logger = \<lparr>trace_evaluated = True, warn_evaluated = True, error_evaluated = True\<rparr>,
             effects = []\<rparr>) of
      Inl e \<Rightarrow> False
    | Inr s' \<Rightarrow> close_when_done (m_awaiting_buffers_ws s'))"
  using append_assertion_unreachable
    [of "[5::nat]" "\<lparr>m_close_when_done = True, m_awaiting_buffers = []\<rparr>" 64
        "\<lparr>connection_id = 1,
            m_socket = \<lparr>is_open = True, remote_endpoint = ''peer''\<rparr>,
            m_close_handler = Some (Handler_throws ''boom''),
            m_resp_out_ctx = \<lparr>m_transmitting = False, m_bufs = ([]::nat list)\<rparr>,
            m_awaiting_buffers_ws = \<lparr>m_close_when_done = False, m_awaiting_buffers = []\<rparr>,
            m_logger = \<lparr>trace_evaluated = True, warn_evaluated = True, error_evaluated = True\<rparr>,
            effects = []\<rparr>"
        "[Call_write_data [1::nat], Call_close, Call_write_data [2],
                 Write_completed No_error 1, Call_write_data [3]]"]
  by (simp add: ws_defs)

text \<open>
  Claim C4. When the socket is not open or the close flag is set, \<open>write_data_impl\<close>
  returns normally with the connection unchanged but for one logged warning: the
  queue and the output context are untouched, no write is issued and nothing is
  thrown. In particular a \<open>write_data\<close> on the connection as \<open>graceful_close\<close>
  leaves it only logs the warning.
\<close>

theorem write_after_close_is_noop:
  "(\<not> is_open (m_socket s) \<or> close_when_done (m_awaiting_buffers_ws s) \<longrightarrow>
      (\<exists>fmt. write_data_impl mx bufs s =
          Normal (s\<lparr>effects := effects s @ [Log Warn fmt [Arg_u64 (connection_id s)]]\<rparr>))) \<and>
   (\<exists>s1. final_state (graceful_close mx s) = Some s1 \<and>
      (\<exists>fmt. write_data mx bufs s1 =
          Normal (s1\<lparr>effects := effects s1 @ [Log Warn fmt [Arg_u64 (connection_id s1)]]\<rparr>)))"
proof -
  have noop: "\<exists>fmt. write_data_impl mx bufs t =
          Normal (t\<lparr>effects := effects t @ [Log Warn fmt [Arg_u64 (connection_id t)]]\<rparr>)"
    if "\<not> is_open (m_socket t) \<or> close_when_done (m_awaiting_buffers_ws t)"
    for t :: "'a ws_connection_t"
    using write_data_impl_refused [OF that, of mx bufs] by (auto simp: emit_def)
  from graceful_close_sets_flag [of mx s] obtain s1 where
    s1: "final_state (graceful_close mx s) = Some s1" "close_when_done (m_awaiting_buffers_ws s1)"
    by (rule ends_withE)
  from s1(2) obtain fmt where "write_data_impl mx bufs s1 =
          Normal (s1\<lparr>effects := effects s1 @ [Log Warn fmt [Arg_u64 (connection_id s1)]]\<rparr>)"
    using noop [of s1] by auto
  then have "write_data mx bufs s1 =
          Normal (s1\<lparr>effects := effects s1 @ [Log Warn fmt [Arg_u64 (connection_id s1)]]\<rparr>)"
    by (simp add: write_data_def catch_outcome_def)
  with s1(1) have "\<exists>s1. final_state (graceful_close mx s) = Some s1 \<and>
      (\<exists>fmt. write_data mx bufs s1 =
          Normal (s1\<lparr>effects := effects s1 @ [Log Warn fmt [Arg_u64 (connection_id s1)]]\<rparr>))"
    by (intro exI [of _ s1] conjI exI [of _ fmt])
  with noop [of s] show ?thesis by simp
qed

theorem write_after_close_is_noop_witness:
  "write_data_impl 64 [9::nat] (\<lparr>connection_id = 1,
      m_socket = \<lparr>is_open = False, remote_endpoint = ''peer''\<rparr>,
      m_close_handler = Some Handler_returns,
      m_resp_out_ctx = \<lparr>m_transmitting = False, m_bufs = ([]::nat list)\<rparr>,
      m_awaiting_buffers_ws = \<lparr>m_close_when_done = False, m_awaiting_buffers = [2::nat]\<rparr>,
      m_logger = \<lparr>trace_evaluated = False, warn_evaluated = False, error_evaluated = False\<rparr>,
      effects = []\<rparr>) =
    Normal (\<lparr>connection_id = 1,
        m_socket = \<lparr>is_open = False, remote_endpoint = ''peer''\<rparr>,
        m_close_handler = Some Handler_returns,
        m_resp_out_ctx = \<lparr>m_transmitting = False, m_bufs = []\<rparr>,
        m_awaiting_buffers_ws = \<lparr>m_close_when_done = False, m_awaiting_buffers = [2]\<rparr>,
        m_logger = \<lparr>trace_evaluated = False, warn_evaluated = False, error_evaluated = False\<rparr>,
        effects = [Log Warn ''[ws_connection:{}] try to write response, while socket is closed'' [Arg_u64 1]]\<rparr>)"
  using write_after_close_is_noop
    [of "\<lparr>connection_id = 1,
        m_socket = \<lparr>is_open = False, remote_endpoint = ''peer''\<rparr>,
        m_close_handler = Some Handler_returns,
        m_resp_out_ctx = \<lparr>m_transmitting = False, m_bufs = ([]::nat list)\<rparr>,
        m_awaiting_buffers_ws = \<lparr>m_close_when_done = False, m_awaiting_buffers = [2::nat]\<rparr>,
        m_logger = \<lparr>trace_evaluated = False, warn_evaluated = False, error_evaluated = False\<rparr>,
        effects = []\<rparr>" 64 "[9]"]
  by (simp add: ws_defs)


text \<open>
  Claim C3 says that with no write in flight, an empty queue and the close flag set,
  \<open>init_write_if_necessary\<close> invokes the close handler once with reason
  "user initiated" and then shuts the socket down and closes it. On a connection as
  the constructor builds it the handler is empty, whatever \<open>close_handler\<close> was
  passed: \<open>init_write_if_necessary\<close> on that connection with the flag set, and
  \<open>close\<close> on that connection, log, shut the socket down and close it, once each, and
  invoke no handler.
\<close>

theorem drained_close_skips_handler:
  "ws_connection_ctor 1 (\<lparr>is_open = True, remote_endpoint = ''peer''\<rparr>)
     (\<lparr>trace_evaluated = True, warn_evaluated = True, error_evaluated = True\<rparr>) Handler_returns =
   Normal (\<lparr>connection_id = 1,
       m_socket = \<lparr>is_open = True, remote_endpoint = ''peer''\<rparr>,
       m_close_handler = None,
       m_resp_out_ctx = \<lparr>m_transmitting = False, m_bufs = ([]::nat list)\<rparr>,
       m_awaiting_buffers_ws = \<lparr>m_close_when_done = False, m_awaiting_buffers = []\<rparr>,
       m_logger = \<lparr>trace_evaluated = True, warn_evaluated = True, error_evaluated = True\<rparr>,
       effects = [Log Trace ''[ws_connection:{}] start connection with {}'' [Arg_u64 1, Arg_str ''peer'']]\<rparr>) \<and>
   init_write_if_necessary 64
     (\<lparr>connection_id = 1,
         m_socket = \<lparr>is_open = True, remote_endpoint = ''peer''\<rparr>,
         m_close_handler = None,
         m_resp_out_ctx = \<lparr>m_transmitting = False, m_bufs = ([]::nat list)\<rparr>,
         m_awaiting_buffers_ws = \<lparr>m_close_when_done = True, m_awaiting_buffers = []\<rparr>,
         m_logger = \<lparr>trace_evaluated = True, warn_evaluated = True, error_evaluated = True\<rparr>,
         effects = [Log Trace ''[ws_connection:{}] start connection with {}'' [Arg_u64 1, Arg_str ''peer'']]\<rparr>) =
   Normal (\<lparr>connection_id = 1,
       m_socket = \<lparr>is_open = False, remote_endpoint = ''peer''\<rparr>,
       m_close_handler = None,
       m_resp_out_ctx = \<lparr>m_transmitting = False, m_bufs = []\<rparr>,
       m_awaiting_buffers_ws = \<lparr>m_close_when_done = True, m_awaiting_buffers = []\<rparr>,
       m_logger = \<lparr>trace_evaluated = True, warn_evaluated = True, error_evaluated = True\<rparr>,
       effects = [Log Trace ''[ws_connection:{}] start connection with {}'' [Arg_u64 1, Arg_str ''peer''],
          Log Trace ''[ws_connection:{}] close'' [Arg_u64 1],
          Socket_shutdown_both, Socket_close]\<rparr>) \<and>
   close_ws 64 (\<lparr>connection_id = 1,
       m_socket = \<lparr>is_open = True, remote_endpoint = ''peer''\<rparr>,
       m_close_handler = None,
       m_resp_out_ctx = \<lparr>m_transmitting = False, m_bufs = ([]::nat list)\<rparr>,
       m_awaiting_buffers_ws = \<lparr>m_close_when_done = False, m_awaiting_buffers = []\<rparr>,
       m_logger = \<lparr>trace_evaluated = True, warn_evaluated = True, error_evaluated = True\<rparr>,
       effects = [Log Trace ''[ws_connection:{}] start connection with {}'' [Arg_u64 1, Arg_str ''peer'']]\<rparr>) =
   Normal (\<lparr>connection_id = 1,
       m_socket = \<lparr>is_open = False, remote_endpoint = ''peer''\<rparr>,
       m_close_handler = None,
       m_resp_out_ctx = \<lparr>m_transmitting = False, m_bufs = []\<rparr>,
       m_awaiting_buffers_ws = \<lparr>m_close_when_done = True, m_awaiting_buffers = []\<rparr>,
       m_logger = \<lparr>trace_evaluated = True, warn_evaluated = True, error_evaluated = True\<rparr>,
       effects = [Log Trace ''[ws_connection:{}] start connection with {}'' [Arg_u64 1, Arg_str ''peer''],
          Log Trace ''[ws_connection:{}] close'' [Arg_u64 1],
          Socket_shutdown_both, Socket_close]\<rparr>) \<and>
   count_close_handler_calls (effects (\<lparr>connection_id = 1,
       m_socket = \<lparr>is_open = False, remote_endpoint = ''peer''\<rparr>,
       m_close_handler = None,
       m_resp_out_ctx = \<lparr>m_transmitting = False, m_bufs = []\<rparr>,
       m_awaiting_buffers_ws = \<lparr>m_close_when_done = True, m_awaiting_buffers = []\<rparr>,
       m_logger = \<lparr>trace_evaluated = True, warn_evaluated = True, error_evaluated = True\<rparr>,
       effects = [Log Trace ''[ws_connection:{}] start connection with {}'' [Arg_u64 1, Arg_str ''peer''],
          Log Trace ''[ws_connection:{}] close'' [Arg_u64 1],
          Socket_shutdown_both, Socket_close]\<rparr>)) = 0"
  by (simp add: ws_defs)

lemma after_write_failure_branches:
  "after_write mx Operation_aborted written s = Normal s"
  "after_write mx (Other_error msg) written s =
     trigger_error_and_close msg
       (''[ws_connection:{}] unable to write: {}'', [Arg_u64 (connection_id s), Arg_str msg]) s"
  by simp_all

text \<open>
  Claim C5 says that \<open>after_write\<close> on success calls \<open>done\<close> and, the socket being
  open, runs \<open>init_write_if_necessary\<close> again to drain the queue. With a logger that
  evaluates trace messages it does not: the trace message of the success branch has
  two placeholders and one argument, so formatting it throws after \<open>done\<close>;
  \<open>init_write_if_necessary\<close> is not run and the queued buffer is not written, and the
  \<open>catch\<close> clause of the write callback logs the error and calls
  \<open>call_close_handler\<close>. With a logger that does not evaluate trace messages the same
  completion issues the next write.
\<close>

theorem after_write_success_throws:
  "after_write 64 No_error 1 (\<lparr>connection_id = 1,
      m_socket = \<lparr>is_open = True, remote_endpoint = ''peer''\<rparr>,
      m_close_handler = None,
      m_resp_out_ctx = \<lparr>m_transmitting = True, m_bufs = [1::nat]\<rparr>,
      m_awaiting_buffers_ws = \<lparr>m_close_when_done = False, m_awaiting_buffers = [2]\<rparr>,
      m_logger = \<lparr>trace_evaluated = True, warn_evaluated = True, error_evaluated = True\<rparr>,
      effects = []\<rparr>) =
   Thrown format_error_what
     (\<lparr>connection_id = 1,
         m_socket = \<lparr>is_open = True, remote_endpoint = ''peer''\<rparr>,
         m_close_handler = None,
         m_resp_out_ctx = \<lparr>m_transmitting = False, m_bufs = []\<rparr>,
         m_awaiting_buffers_ws = \<lparr>m_close_when_done = False, m_awaiting_buffers = [2]\<rparr>,
         m_logger = \<lparr>trace_evaluated = True, warn_evaluated = True, error_evaluated = True\<rparr>,
         effects = [Log Trace ''[ws_connection:{}] outgoing data was sent: {}b'' [Arg_u64 1]]\<rparr>) \<and>
   handle_input 64 (Write_completed No_error 1) (\<lparr>connection_id = 1,
       m_socket = \<lparr>is_open = True, remote_endpoint = ''peer''\<rparr>,
       m_close_handler = None,
       m_resp_out_ctx = \<lparr>m_transmitting = True, m_bufs = [1::nat]\<rparr>,
       m_awaiting_buffers_ws = \<lparr>m_close_when_done = False, m_awaiting_buffers = [2]\<rparr>,
       m_logger = \<lparr>trace_evaluated = True, warn_evaluated = True, error_evaluated = True\<rparr>,
       effects = []\<rparr>) =
   Normal (\<lparr>connection_id = 1,
       m_socket = \<lparr>is_open = True, remote_endpoint = ''peer''\<rparr>,
       m_close_handler = None,
       m_resp_out_ctx = \<lparr>m_transmitting = False, m_bufs = []\<rparr>,
       m_awaiting_buffers_ws = \<lparr>m_close_when_done = False, m_awaiting_buffers = [2]\<rparr>,
       m_logger = \<lparr>trace_evaluated = True, warn_evaluated = True, error_evaluated = True\<rparr>,
       effects = [Log Trace ''[ws_connection:{}] outgoing data was sent: {}b'' [Arg_u64 1],
          Log Error ''[ws_connection:{}] after write callback error: {}'' [Arg_u64 1, Arg_str format_error_what]]\<rparr>) \<and>
   after_write 64 No_error 1 (\<lparr>connection_id = 1,
       m_socket = \<lparr>is_open = True, remote_endpoint = ''peer''\<rparr>,
       m_close_handler = None,
       m_resp_out_ctx = \<lparr>m_transmitting = True, m_bufs = [1::nat]\<rparr>,
       m_awaiting_buffers_ws = \<lparr>m_close_when_done = False, m_awaiting_buffers = [2]\<rparr>,
       m_logger = \<lparr>trace_evaluated = False, warn_evaluated = False, error_evaluated = False\<rparr>,
       effects = []\<rparr>) =
   Normal (\<lparr>connection_id = 1,
       m_socket = \<lparr>is_open = True, remote_endpoint = ''peer''\<rparr>,
       m_close_handler = None,
       m_resp_out_ctx = \<lparr>m_transmitting = True, m_bufs = [2]\<rparr>,
       m_awaiting_buffers_ws = \<lparr>m_close_when_done = False, m_awaiting_buffers = []\<rparr>,
       m_logger = \<lparr>trace_evaluated = False, warn_evaluated = False, error_evaluated = False\<rparr>,
       effects = [Log Trace ''[ws_connection:{}] outgoing data was sent: {}b'' [Arg_u64 1],
          Log Trace ''[ws_connection:{}] sending resp data, buf count: {}'' [Arg_u64 1, Arg_size 1],
          Async_write [2]]\<rparr>)"
  by (simp add: ws_defs)

end
